theory Spec2Isabelle
  imports Complex_Main "HOL-Library.Multiset"
begin

section \<open>Values, documents and the document store\<close>

text \<open>
  The handlers of \<^verbatim>\<open>backend/server.py\<close> move Python values of type \<^verbatim>\<open>Any\<close> between the
  provider's JSON bodies and MongoDB documents. \<open>val\<close> is that value space: the JSON
  values, plus the two types only the store adds (a datetime, an ObjectId).
  A \<^verbatim>\<open>float\<close> is idealised as a real number and a \<^verbatim>\<open>datetime\<close> is the integer count of
  its microseconds. A dict is an association list read with \<open>map_of\<close>.
\<close>

datatype val =
    VNone
  | VBool bool
  | VInt int
  | VFloat real
  | VStr string
  | VList "val list"
  | VDict "(string \<times> val) list"
  | VDatetime int
  | VObjectId nat

type_synonym doc = "(string \<times> val) list"

text \<open>\<^verbatim>\<open>timedelta(hours=n)\<close>, in microseconds.\<close>

definition hours :: "int \<Rightarrow> int" where
  "hours n = n * 3600000000"

text \<open>\<^verbatim>\<open>d.get(k, default)\<close> on a dict.\<close>

definition dict_get :: "doc \<Rightarrow> string \<Rightarrow> val \<Rightarrow> val" where
  "dict_get d k dflt = (case map_of d k of Some v \<Rightarrow> v | None \<Rightarrow> dflt)"

text \<open>
  The exceptions the modelled code can raise. \<open>HTTPException\<close> is FastAPI's; it is a
  subclass of \<^verbatim>\<open>Exception\<close> like the others, so an \<^verbatim>\<open>except Exception\<close> clause catches it.
\<close>

datatype http_exception = HTTPException nat string

datatype exn =
    Http http_exception
  | TypeError
  | AttributeError
  | IndexError
  | KeyError
  | ValidationError
  | OverflowError
  | InvalidDocument

subsection \<open>What the store keeps of a document\<close>

text \<open>
  The driver sends every document and every filter as BSON. A BSON datetime counts
  milliseconds: the microseconds of a \<^verbatim>\<open>datetime\<close> are cut off (rounded down), in a stored
  document and in a filter alike.
\<close>

definition ms :: "int \<Rightarrow> int" where
  "ms t = t div 1000 * 1000"

fun bson_cut :: "val \<Rightarrow> val" where
  "bson_cut (VDatetime t) = VDatetime (ms t)"
| "bson_cut (VList xs) = VList (map bson_cut xs)"
| "bson_cut (VDict kvs) = VDict (map (\<lambda>kv. (fst kv, bson_cut (snd kv))) kvs)"
| "bson_cut v = v"

text \<open>
  The encoder raises on an integer outside the 64-bit range (\<^verbatim>\<open>OverflowError\<close>) and on a
  key that contains a NUL character (\<^verbatim>\<open>InvalidDocument\<close>). \<open>bson_error\<close> is the first such
  exception in the order of the encoding, key before value.
\<close>

fun first_error :: "exn option list \<Rightarrow> exn option" where
  "first_error [] = None"
| "first_error (Some e # es) = Some e"
| "first_error (None # es) = first_error es"

fun bson_error :: "val \<Rightarrow> exn option" where
  "bson_error (VInt i) =
     (if - (2 ^ 63) \<le> i \<and> i < 2 ^ 63 then None else Some OverflowError)"
| "bson_error (VList xs) = first_error (map bson_error xs)"
| "bson_error (VDict kvs) =
     first_error (map (\<lambda>kv. if CHR 0x00 \<in> set (fst kv) then Some InvalidDocument
                               else bson_error (snd kv)) kvs)"
| "bson_error v = None"

definition to_bson :: "doc \<Rightarrow> exn + doc" where
  "to_bson d =
     (case bson_error (VDict d) of
        Some e \<Rightarrow> Inl e
      | None \<Rightarrow> Inr (map (\<lambda>kv. (fst kv, bson_cut (snd kv))) d))"

subsection \<open>Queries\<close>

text \<open>
  The two filter shapes the handlers use: \<^verbatim>\<open>{"f": v}\<close> (equality) and
  \<^verbatim>\<open>{"f": {"$gte": v}}\<close>. A filter is the conjunction of its entries. \<^verbatim>\<open>$gte\<close> against a
  datetime only matches a field that holds a datetime, and compares with the filter's
  datetime as the store receives it, cut to the millisecond.
\<close>

datatype cond = Eq val | Gte val

type_synonym query = "(string \<times> cond) list"

fun holds :: "doc \<Rightarrow> string \<times> cond \<Rightarrow> bool" where
  "holds d (f, Eq v) = (map_of d f = Some v)"
| "holds d (f, Gte v) =
     (case (map_of d f, v) of
        (Some (VDatetime u), VDatetime t) \<Rightarrow> ms t \<le> u
      | _ \<Rightarrow> False)"

definition matches :: "query \<Rightarrow> doc \<Rightarrow> bool" where
  "matches q d = list_all (holds d) q"

text \<open>\<^verbatim>\<open>collection.find_one(filter)\<close>: the first matching document, or \<^verbatim>\<open>None\<close>.\<close>

definition find_one :: "query \<Rightarrow> doc list \<Rightarrow> doc option" where
  "find_one q coll = find (matches q) coll"

text \<open>
  \<^verbatim>\<open>collection.replace_one(filter, replacement, upsert=True)\<close>: the replacement is encoded,
  which may raise; then the first matching document is replaced as a whole and keeps only
  its \<^verbatim>\<open>_id\<close>, and when no document matches, the replacement is inserted under a newly
  generated \<^verbatim>\<open>_id\<close>. What is stored is the replacement as encoded.
\<close>

definition keep_id :: "doc \<Rightarrow> doc \<Rightarrow> doc" where
  "keep_id old new =
     (case map_of old ''_id'' of Some i \<Rightarrow> (''_id'', i) # new | None \<Rightarrow> new)"

fun replace_first :: "(doc \<Rightarrow> bool) \<Rightarrow> doc \<Rightarrow> doc list \<Rightarrow> doc list option" where
  "replace_first P new [] = None"
| "replace_first P new (d # ds) =
     (if P d then Some (keep_id d new # ds)
      else map_option ((#) d) (replace_first P new ds))"

definition upsert :: "query \<Rightarrow> doc \<Rightarrow> doc list \<Rightarrow> nat \<Rightarrow> doc list \<times> nat" where
  "upsert q stored coll n =
     (case replace_first (matches q) stored coll of
        Some coll' \<Rightarrow> (coll', n)
      | None \<Rightarrow> (coll @ [(''_id'', VObjectId n) # stored], Suc n))"

definition replace_one :: "query \<Rightarrow> doc \<Rightarrow> doc list \<Rightarrow> nat \<Rightarrow> exn + doc list \<times> nat" where
  "replace_one q replacement coll n =
     (case to_bson replacement of
        Inl e \<Rightarrow> Inl e
      | Inr stored \<Rightarrow> Inr (upsert q stored coll n))"

subsection \<open>The state the handlers act on\<close>

text \<open>
  \<open>weather\<close> and \<open>soil\<close> are the collections \<^verbatim>\<open>db.weather\<close> and \<^verbatim>\<open>db.soil\<close>, \<open>next_oid\<close> the
  source of new ObjectIds. \<open>outbound\<close> records every request sent to an external
  provider, in order; it is how the model observes that a fetcher was or was not called.
\<close>

datatype provider_call = WeatherRequest string | SoilRequest string

record state =
  weather :: "doc list"
  soil :: "doc list"
  next_oid :: nat
  outbound :: "provider_call list"

section \<open>The fetchers\<close>

text \<open>
  \<^verbatim>\<open>fetch_weather_data\<close> and \<^verbatim>\<open>fetch_soil_data\<close> wrap one HTTP request in
  \<^verbatim>\<open>try ... except Exception: return {}\<close>. The provider is a parameter \<open>api\<close>: \<open>None\<close> is any
  exception of the exchange (transport, status, decoding), \<open>Some body\<close> the decoded JSON
  object.
\<close>

definition fetch_weather_data :: "(string \<Rightarrow> doc option) \<Rightarrow> string \<Rightarrow> state \<Rightarrow> doc \<times> state" where
  "fetch_weather_data api city s =
     ((case api city of Some body \<Rightarrow> body | None \<Rightarrow> []),
      s\<lparr>outbound := outbound s @ [WeatherRequest city]\<rparr>)"

definition fetch_soil_data :: "(string \<Rightarrow> doc option) \<Rightarrow> string \<Rightarrow> state \<Rightarrow> doc \<times> state" where
  "fetch_soil_data api polygon_id s =
     ((case api polygon_id of Some body \<Rightarrow> body | None \<Rightarrow> []),
      s\<lparr>outbound := outbound s @ [SoilRequest polygon_id]\<rparr>)"

section \<open>The cached documents\<close>

text \<open>
  \<^verbatim>\<open>WeatherData(city=..., current=..., forecast=...).dict()\<close>. The model validates as the
  declared field types say: \<open>current\<close> must be a dict and \<open>forecast\<close> a list of dicts,
  anything else is a validation error. \<open>updated_at\<close> is filled by its default factory,
  \<^verbatim>\<open>datetime.utcnow\<close>, whose reading is the parameter \<open>now\<close>.
\<close>

fun is_dict :: "val \<Rightarrow> bool" where
  "is_dict (VDict _) = True"
| "is_dict _ = False"

definition WeatherData :: "string \<Rightarrow> val \<Rightarrow> val \<Rightarrow> int \<Rightarrow> exn + doc" where
  "WeatherData city current forecast now =
     (case forecast of
        VList days \<Rightarrow>
          if is_dict current \<and> list_all is_dict days
          then Inr [(''city'', VStr city), (''current'', current),
                    (''forecast'', forecast), (''updated_at'', VDatetime now)]
          else Inl ValidationError
      | _ \<Rightarrow> Inl ValidationError)"

text \<open>\<^verbatim>\<open>v[:7]\<close>: defined on lists and strings, an exception on every other value.\<close>

fun slice7 :: "val \<Rightarrow> exn + val" where
  "slice7 (VList xs) = Inr (VList (take 7 xs))"
| "slice7 (VStr s) = Inr (VStr (take 7 s))"
| "slice7 _ = Inl TypeError"

text \<open>
  A number as comparisons see it (a bool is an int in Python), and an int as a float:
  the conversion raises \<^verbatim>\<open>OverflowError\<close> when the int rounds to a value beyond the
  largest binary64 number.
\<close>

fun as_number :: "val \<Rightarrow> real option" where
  "as_number (VInt i) = Some (real_of_int i)"
| "as_number (VFloat x) = Some x"
| "as_number (VBool b) = Some (if b then 1 else 0)"
| "as_number _ = None"

definition fits_float :: "int \<Rightarrow> bool" where
  "fits_float i = (\<bar>i\<bar> < 2 ^ 1024 - 2 ^ 970)"

text \<open>
  \<^verbatim>\<open>v - 273.15\<close>: defined on numbers, \<^verbatim>\<open>TypeError\<close> on every other value, \<^verbatim>\<open>OverflowError\<close>
  on an int too large for a float.
\<close>

definition kelvin_to_celsius :: "val \<Rightarrow> exn + val" where
  "kelvin_to_celsius v =
     (case v of
        VInt i \<Rightarrow> if fits_float i then Inr (VFloat (real_of_int i - 273.15)) else Inl OverflowError
      | _ \<Rightarrow> (case as_number v of Some x \<Rightarrow> Inr (VFloat (x - 273.15)) | None \<Rightarrow> Inl TypeError))"

text \<open>
  A value given to a \<^verbatim>\<open>float\<close> field: a number is taken as a float, a string is parsed, and
  anything else (or an int too large for a float, or a string that does not parse) is
  rejected. How pydantic reads a string as a float is the parameter \<open>parse_float\<close>.
\<close>

definition float_field :: "(string \<Rightarrow> real option) \<Rightarrow> val \<Rightarrow> real option" where
  "float_field parse_float v =
     (case v of
        VStr s \<Rightarrow> parse_float s
      | VInt i \<Rightarrow> if fits_float i then Some (real_of_int i) else None
      | _ \<Rightarrow> as_number v)"

text \<open>
  \<^verbatim>\<open>SoilData(polygon_id=..., temperature_surface=..., temperature_10cm=..., moisture=...).dict()\<close>.
  The three readings are \<^verbatim>\<open>float\<close> fields; a value that is rejected is a validation error.
  \<open>ph\<close> is never passed and takes its default 6.5.
\<close>

definition SoilData ::
  "(string \<Rightarrow> real option) \<Rightarrow> string \<Rightarrow> val \<Rightarrow> val \<Rightarrow> val \<Rightarrow> int \<Rightarrow> exn + doc" where
  "SoilData parse_float polygon_id temperature_surface temperature_10cm moisture now =
     (case (float_field parse_float temperature_surface, float_field parse_float temperature_10cm,
            float_field parse_float moisture) of
        (Some ts, Some t10, Some m) \<Rightarrow>
          Inr [(''polygon_id'', VStr polygon_id), (''temperature_surface'', VFloat ts),
               (''temperature_10cm'', VFloat t10), (''moisture'', VFloat m),
               (''ph'', VFloat 6.5), (''updated_at'', VDatetime now)]
      | _ \<Rightarrow> Inl ValidationError)"

section \<open>The route handlers\<close>

text \<open>
  \<^verbatim>\<open>get_weather(city)\<close>. \<open>now\<close> is the reading of \<^verbatim>\<open>datetime.utcnow()\<close> in the cache filter,
  \<open>now'\<close> the later reading taken when the new document is built. \<open>weather_doc\<close> is the
  statement that builds the document from the provider's answer, \<open>get_weather_try\<close> the
  body of the \<^verbatim>\<open>try\<close>; \<open>get_weather\<close> adds the \<^verbatim>\<open>except Exception\<close> clause, which turns every
  exception of the body into \<^verbatim>\<open>HTTPException(500)\<close>. A document that \<^verbatim>\<open>find_one\<close> returns
  has the filter's fields, so \<^verbatim>\<open>if cached_weather:\<close> holds exactly when one is found.
  On a refresh the handler returns the document it built, not the document as stored.
\<close>

definition weather_filter :: "string \<Rightarrow> int \<Rightarrow> query" where
  "weather_filter city now =
     [(''city'', Eq (VStr city)), (''updated_at'', Gte (VDatetime (now - hours 1)))]"

definition weather_doc :: "string \<Rightarrow> doc \<Rightarrow> int \<Rightarrow> exn + doc" where
  "weather_doc city weather_data now' =
     (case slice7 (dict_get weather_data ''days'' (VList [])) of
        Inl e \<Rightarrow> Inl e
      | Inr forecast \<Rightarrow>
          WeatherData city (dict_get weather_data ''currentConditions'' (VDict [])) forecast now')"

definition get_weather_try ::
  "(string \<Rightarrow> doc option) \<Rightarrow> int \<Rightarrow> int \<Rightarrow> string \<Rightarrow> state \<Rightarrow> (exn + doc) \<times> state" where
  "get_weather_try api now now' city s =
     (case find_one (weather_filter city now) (weather s) of
        Some cached_weather \<Rightarrow> (Inr cached_weather, s)
      | None \<Rightarrow>
          (case fetch_weather_data api city s of
             (weather_data, s1) \<Rightarrow>
               if weather_data \<noteq> [] then
                 (case weather_doc city weather_data now' of
                    Inl e \<Rightarrow> (Inl e, s1)
                  | Inr doc \<Rightarrow>
                      (case replace_one [(''city'', Eq (VStr city))] doc
                              (weather s1) (next_oid s1) of
                         Inl e \<Rightarrow> (Inl e, s1)
                       | Inr (coll, n) \<Rightarrow> (Inr doc, s1\<lparr>weather := coll, next_oid := n\<rparr>)))
               else (Inl (Http (HTTPException 404 ''Weather data not found'')), s1)))"

definition get_weather ::
  "(string \<Rightarrow> doc option) \<Rightarrow> int \<Rightarrow> int \<Rightarrow> string \<Rightarrow> state \<Rightarrow> (http_exception + doc) \<times> state" where
  "get_weather api now now' city s =
     (case get_weather_try api now now' city s of
        (Inr r, s') \<Rightarrow> (Inr r, s')
      | (Inl e, s') \<Rightarrow> (Inl (HTTPException 500 ''Failed to fetch weather data''), s'))"

text \<open>\<^verbatim>\<open>get_soil_data(polygon_id)\<close>, built the same way with a six-hour window.\<close>

definition soil_filter :: "string \<Rightarrow> int \<Rightarrow> query" where
  "soil_filter polygon_id now =
     [(''polygon_id'', Eq (VStr polygon_id)), (''updated_at'', Gte (VDatetime (now - hours 6)))]"

definition soil_doc :: "(string \<Rightarrow> real option) \<Rightarrow> string \<Rightarrow> doc \<Rightarrow> int \<Rightarrow> exn + doc" where
  "soil_doc parse_float polygon_id soil_data now' =
     (case kelvin_to_celsius (dict_get soil_data ''t0'' (VInt 300)) of
        Inl e \<Rightarrow> Inl e
      | Inr ts \<Rightarrow>
          (case kelvin_to_celsius (dict_get soil_data ''t10'' (VInt 300)) of
             Inl e \<Rightarrow> Inl e
           | Inr t10 \<Rightarrow>
               SoilData parse_float polygon_id ts t10
                 (dict_get soil_data ''moisture'' (VFloat 0.2)) now'))"

definition get_soil_data_try ::
  "(string \<Rightarrow> real option) \<Rightarrow> (string \<Rightarrow> doc option) \<Rightarrow> int \<Rightarrow> int \<Rightarrow> string \<Rightarrow> state
     \<Rightarrow> (exn + doc) \<times> state" where
  "get_soil_data_try parse_float api now now' polygon_id s =
     (case find_one (soil_filter polygon_id now) (soil s) of
        Some cached_soil \<Rightarrow> (Inr cached_soil, s)
      | None \<Rightarrow>
          (case fetch_soil_data api polygon_id s of
             (soil_data, s1) \<Rightarrow>
               if soil_data \<noteq> [] then
                 (case soil_doc parse_float polygon_id soil_data now' of
                    Inl e \<Rightarrow> (Inl e, s1)
                  | Inr doc \<Rightarrow>
                      (case replace_one [(''polygon_id'', Eq (VStr polygon_id))] doc
                              (soil s1) (next_oid s1) of
                         Inl e \<Rightarrow> (Inl e, s1)
                       | Inr (coll, n) \<Rightarrow> (Inr doc, s1\<lparr>soil := coll, next_oid := n\<rparr>)))
               else (Inl (Http (HTTPException 404 ''Soil data not found'')), s1)))"

definition get_soil_data ::
  "(string \<Rightarrow> real option) \<Rightarrow> (string \<Rightarrow> doc option) \<Rightarrow> int \<Rightarrow> int \<Rightarrow> string \<Rightarrow> state
     \<Rightarrow> (http_exception + doc) \<times> state" where
  "get_soil_data parse_float api now now' polygon_id s =
     (case get_soil_data_try parse_float api now now' polygon_id s of
        (Inr r, s') \<Rightarrow> (Inr r, s')
      | (Inl e, s') \<Rightarrow> (Inl (HTTPException 500 ''Failed to fetch soil data''), s'))"

section \<open>Sequences of requests\<close>

text \<open>
  A request carries what the handler reads from its environment while it runs: the
  provider's answer and the two clock readings (and, for soil, the float parser).
\<close>

datatype call =
    GetWeather "string \<Rightarrow> doc option" int int string
  | GetSoil "string \<Rightarrow> real option" "string \<Rightarrow> doc option" int int string

fun step :: "call \<Rightarrow> state \<Rightarrow> state" where
  "step (GetWeather api now now' city) s = snd (get_weather api now now' city s)"
| "step (GetSoil parse_float api now now' polygon_id) s =
     snd (get_soil_data parse_float api now now' polygon_id s)"

definition run :: "call list \<Rightarrow> state \<Rightarrow> state" where
  "run calls s = fold step calls s"

text \<open>The clock does not run backwards while one request is served.\<close>

fun clock_ok :: "call \<Rightarrow> bool" where
  "clock_ok (GetWeather api now now' city) = (now \<le> now')"
| "clock_ok (GetSoil parse_float api now now' polygon_id) = (now \<le> now')"

text \<open>At most one document per value of the key field.\<close>

definition one_per_key :: "string \<Rightarrow> doc list \<Rightarrow> bool" where
  "one_per_key field coll = distinct (List.map_filter (\<lambda>d. map_of d field) coll)"

definition cache_inv :: "state \<Rightarrow> bool" where
  "cache_inv s = (one_per_key ''city'' (weather s) \<and> one_per_key ''polygon_id'' (soil s))"

text \<open>The \<open>updated_at\<close> of the document stored under a key, when there is one.\<close>

definition stored_updated_at :: "string \<Rightarrow> string \<Rightarrow> doc list \<Rightarrow> int option" where
  "stored_updated_at field key coll =
     (case find_one [(field, Eq (VStr key))] coll of
        Some d \<Rightarrow> (case map_of d ''updated_at'' of Some (VDatetime u) \<Rightarrow> Some u | _ \<Rightarrow> None)
      | None \<Rightarrow> None)"

section \<open>Crop recommendations\<close>

record crop =
  name :: string
  temp_range :: "int \<times> int"
  moisture_req :: string
  ph_range :: "real \<times> real"
  season :: string
  yield_per_acre :: int
  price_per_kg :: int

definition crops_db :: "crop list" where
  "crops_db =
     [\<lparr>name = ''Rice'', temp_range = (20, 35), moisture_req = ''high'',
       ph_range = (5.5, 7.0), season = ''Kharif'', yield_per_acre = 25, price_per_kg = 25\<rparr>,
      \<lparr>name = ''Wheat'', temp_range = (15, 25), moisture_req = ''medium'',
       ph_range = (6.0, 7.5), season = ''Rabi'', yield_per_acre = 20, price_per_kg = 22\<rparr>,
      \<lparr>name = ''Cotton'', temp_range = (21, 30), moisture_req = ''medium'',
       ph_range = (6.0, 8.0), season = ''Kharif'', yield_per_acre = 15, price_per_kg = 45\<rparr>,
      \<lparr>name = ''Sugarcane'', temp_range = (20, 30), moisture_req = ''high'',
       ph_range = (6.0, 7.5), season = ''Kharif'', yield_per_acre = 400, price_per_kg = 3\<rparr>,
      \<lparr>name = ''Maize'', temp_range = (18, 27), moisture_req = ''medium'',
       ph_range = (6.0, 7.0), season = ''Kharif/Rabi'', yield_per_acre = 18, price_per_kg = 18\<rparr>]"

record CropRecommendation =
  crop_name :: string
  confidence_score :: real
  yield_forecast :: real
  profit_estimate :: real
  reasons :: "string list"
  growing_season :: string
  water_requirement :: string
  soil_suitability :: string

text \<open>
  \<^verbatim>\<open>v[0]\<close> and \<^verbatim>\<open>v.get(k, default)\<close> on an arbitrary value: only a non-empty sequence has a
  first element, only a dict has \<^verbatim>\<open>get\<close>.
\<close>

fun subscript0 :: "val \<Rightarrow> exn + val" where
  "subscript0 (VList []) = Inl IndexError"
| "subscript0 (VList (x # xs)) = Inr x"
| "subscript0 (VStr []) = Inl IndexError"
| "subscript0 (VStr (c # cs)) = Inr (VStr [c])"
| "subscript0 (VDict d) = Inl KeyError"
| "subscript0 _ = Inl TypeError"

fun method_get :: "val \<Rightarrow> string \<Rightarrow> val \<Rightarrow> exn + val" where
  "method_get (VDict d) k dflt = Inr (dict_get d k dflt)"
| "method_get _ k dflt = Inl AttributeError"

text \<open>The local \<^verbatim>\<open>current_temp\<close>: 25 unless the weather data has a \<^verbatim>\<open>"days"\<close> entry.\<close>

definition current_temp :: "doc \<Rightarrow> exn + val" where
  "current_temp weather_data =
     (if weather_data \<noteq> [] \<and> map_of weather_data ''days'' \<noteq> None then
        (case subscript0 (dict_get weather_data ''days'' VNone) of
           Inl e \<Rightarrow> Inl e
         | Inr day \<Rightarrow> method_get day ''temp'' (VInt 25))
      else Inr (VInt 25))"

text \<open>The local \<^verbatim>\<open>soil_moisture\<close>.\<close>

definition soil_moisture :: "doc \<Rightarrow> val" where
  "soil_moisture soil_data =
     (if soil_data \<noteq> [] then dict_get soil_data ''moisture'' (VFloat 0.2) else VFloat 0.2)"

text \<open>
  Comparisons of a value with numeric constants: \<^verbatim>\<open>lo <= v <= hi\<close> and \<^verbatim>\<open>v > x\<close> raise
  \<^verbatim>\<open>TypeError\<close> unless \<open>v\<close> is a number.
\<close>

definition py_between :: "real \<Rightarrow> val \<Rightarrow> real \<Rightarrow> exn + bool" where
  "py_between lo v hi =
     (case as_number v of Some x \<Rightarrow> Inr (lo \<le> x \<and> x \<le> hi) | None \<Rightarrow> Inl TypeError)"

definition py_gt :: "val \<Rightarrow> real \<Rightarrow> exn + bool" where
  "py_gt v y = (case as_number v of Some x \<Rightarrow> Inr (x > y) | None \<Rightarrow> Inl TypeError)"

text \<open>
  \<^verbatim>\<open>str(v)\<close> as an f-string inserts it. Integers are written out in decimal; the text of a
  float or of a container is left to the parameter \<open>repr\<close>.
\<close>

fun str_nat :: "nat \<Rightarrow> string" where
  "str_nat n =
     (if n < 10 then [''0123456789'' ! n]
      else str_nat (n div 10) @ [''0123456789'' ! (n mod 10)])"

definition str_int :: "int \<Rightarrow> string" where
  "str_int i = (if i < 0 then CHR ''-'' # str_nat (nat (- i)) else str_nat (nat i))"

definition py_str :: "(val \<Rightarrow> string) \<Rightarrow> val \<Rightarrow> string" where
  "py_str repr v =
     (case v of
        VInt i \<Rightarrow> str_int i
      | VBool b \<Rightarrow> (if b then ''True'' else ''False'')
      | VStr s \<Rightarrow> s
      | VNone \<Rightarrow> ''None''
      | _ \<Rightarrow> repr v)"

text \<open>
  One iteration of \<^verbatim>\<open>for crop in crops_db\<close>: the recommendation to append, \<open>None\<close> when the
  confidence filter drops the crop, or the exception of a comparison. The degree sign of
  the first reason is its two UTF-8 bytes.
\<close>

definition score_crop ::
  "(val \<Rightarrow> string) \<Rightarrow> val \<Rightarrow> val \<Rightarrow> crop \<Rightarrow> exn + CropRecommendation option" where
  "score_crop repr temp moisture c =
     (case py_between (real_of_int (fst (temp_range c))) temp (real_of_int (snd (temp_range c))) of
        Inl e \<Rightarrow> Inl e
      | Inr temp_ok \<Rightarrow>
          (case (if moisture_req c = ''high'' then py_gt moisture 0.3
                 else if moisture_req c = ''medium'' then py_between 0.15 moisture 0.4
                 else Inr False) of
             Inl e \<Rightarrow> Inl e
           | Inr moisture_ok \<Rightarrow>
               (let confidence = 0.7 + (if temp_ok then 0.2 else 0) + (if moisture_ok then 0.1 else 0);
                    reasons =
                      (if temp_ok
                       then [''Temperature ('' @ py_str repr temp @ [CHR 0xC2, CHR 0xB0]
                               @ ''C) is ideal for '' @ name c]
                       else [])
                      @ (if moisture_ok
                         then [if moisture_req c = ''high''
                               then ''High soil moisture suitable for water-loving crops''
                               else ''Moderate soil moisture ideal for balanced growth'']
                         else [])
                in if confidence > 0.6 then
                     Inr (Some \<lparr>crop_name = name c,
                                confidence_score = min confidence 1.0,
                                yield_forecast = real_of_int (yield_per_acre c),
                                profit_estimate = real_of_int (yield_per_acre c * price_per_kg c),
                                reasons = reasons,
                                growing_season = season c,
                                water_requirement = moisture_req c,
                                soil_suitability = ''Suitable''\<rparr>)
                   else Inr None)))"

fun recommend_loop ::
  "(val \<Rightarrow> string) \<Rightarrow> val \<Rightarrow> val \<Rightarrow> crop list \<Rightarrow> CropRecommendation list
     \<Rightarrow> exn + CropRecommendation list" where
  "recommend_loop repr temp moisture [] recommendations = Inr recommendations"
| "recommend_loop repr temp moisture (c # cs) recommendations =
     (case score_crop repr temp moisture c of
        Inl e \<Rightarrow> Inl e
      | Inr None \<Rightarrow> recommend_loop repr temp moisture cs recommendations
      | Inr (Some r) \<Rightarrow> recommend_loop repr temp moisture cs (recommendations @ [r]))"

text \<open>
  \<^verbatim>\<open>generate_crop_recommendations(weather_data, soil_data, location)\<close>. Python's
  \<^verbatim>\<open>sort(key=..., reverse=True)\<close> is a stable descending sort, which is the stable ascending
  sort on the negated key. The confidence is summed over the reals; in binary64 the sums
  of 0.7, 0.2 and 0.1 are off by rounding only and compare with each other, with 0.6 and
  with 1.0 in the same way.
\<close>

definition generate_crop_recommendations ::
  "(val \<Rightarrow> string) \<Rightarrow> doc \<Rightarrow> doc \<Rightarrow> string \<Rightarrow> exn + CropRecommendation list" where
  "generate_crop_recommendations repr weather_data soil_data location =
     (case current_temp weather_data of
        Inl e \<Rightarrow> Inl e
      | Inr temp \<Rightarrow>
          (case recommend_loop repr temp (soil_moisture soil_data) crops_db [] of
             Inl e \<Rightarrow> Inl e
           | Inr recommendations \<Rightarrow>
               Inr (take 5 (sort_key (\<lambda>r. - confidence_score r) recommendations))))"

section \<open>Example data\<close>

text \<open>
  A store holding one weather document and one soil document, both written at time 0,
  an empty store, four providers (one answering every city, one answering every
  polygon, one that is down, one whose answer holds an integer beyond 64 bits), a float
  parser that accepts no string and one that reads a single decimal.
\<close>

definition pune_cached :: doc where
  "pune_cached =
     [(''_id'', VObjectId 0), (''city'', VStr ''Pune''), (''current'', VDict [(''temp'', VInt 31)]),
      (''forecast'', VList []), (''updated_at'', VDatetime 0)]"

definition plot_cached :: doc where
  "plot_cached =
     [(''_id'', VObjectId 1), (''polygon_id'', VStr ''poly123''),
      (''temperature_surface'', VFloat 21), (''temperature_10cm'', VFloat 19),
      (''moisture'', VFloat 0.3), (''ph'', VFloat 6.5), (''updated_at'', VDatetime 0)]"

definition cached_state :: state where
  "cached_state = \<lparr>weather = [pune_cached], soil = [plot_cached], next_oid = 2, outbound = []\<rparr>"

definition empty_state :: state where
  "empty_state = \<lparr>weather = [], soil = [], next_oid = 0, outbound = []\<rparr>"

definition weather_api :: "string \<Rightarrow> doc option" where
  "weather_api city =
     Some [(''currentConditions'', VDict [(''temp'', VInt 28)]),
           (''days'', VList [VDict [(''temp'', VInt 28)]])]"

definition soil_api :: "string \<Rightarrow> doc option" where
  "soil_api polygon_id = Some [(''t0'', VFloat 295.15), (''t10'', VFloat 293.15), (''moisture'', VFloat 0.25)]"

definition down_api :: "string \<Rightarrow> doc option" where
  "down_api key = None"

definition no_parse :: "string \<Rightarrow> real option" where
  "no_parse str = None"

definition huge_api :: "string \<Rightarrow> doc option" where
  "huge_api city = Some [(''currentConditions'', VDict [(''visibility'', VInt (2 ^ 63))])]"

definition decimal_parse :: "string \<Rightarrow> real option" where
  "decimal_parse str = (if str = ''0.25'' then Some 0.25 else None)"

section \<open>Facts about the store operations\<close>

lemma ms_le: "ms t \<le> t"
  by (simp add: ms_def)

lemma ms_mono: "a \<le> b \<Longrightarrow> ms a \<le> ms b"
  by (simp add: ms_def zdiv_mono1)

lemma ms_gt: "t - 1000 < ms t"
proof -
  have "t = t div 1000 * 1000 + t mod 1000" by simp
  moreover have "t mod 1000 < 1000" by simp
  ultimately show ?thesis unfolding ms_def by linarith
qed

lemma hours_nonneg: "0 \<le> hours 1" "0 \<le> hours 6"
  by (simp_all add: hours_def)

lemma find_one_SomeD: "find_one q coll = Some d \<Longrightarrow> d \<in> set coll \<and> matches q d"
  by (auto simp: find_one_def find_Some_iff)

lemma find_one_None_iff: "find_one q coll = None \<longleftrightarrow> (\<forall>d\<in>set coll. \<not> matches q d)"
  by (auto simp: find_one_def find_None_iff)

lemma matches_weather_filter:
  "matches (weather_filter city now) d \<longleftrightarrow>
     map_of d ''city'' = Some (VStr city) \<and>
     (\<exists>u. map_of d ''updated_at'' = Some (VDatetime u) \<and> ms (now - hours 1) \<le> u)"
  by (auto simp: matches_def weather_filter_def split: option.splits val.splits)

lemma matches_soil_filter:
  "matches (soil_filter p now) d \<longleftrightarrow>
     map_of d ''polygon_id'' = Some (VStr p) \<and>
     (\<exists>u. map_of d ''updated_at'' = Some (VDatetime u) \<and> ms (now - hours 6) \<le> u)"
  by (auto simp: matches_def soil_filter_def split: option.splits val.splits)

lemma matches_key: "matches [(f, Eq v)] d \<longleftrightarrow> map_of d f = Some v"
  by (simp add: matches_def)

lemma set_map_filter_iff: "v \<in> set (List.map_filter f xs) \<longleftrightarrow> (\<exists>x\<in>set xs. f x = Some v)"
  by (induction xs) (auto simp: List.map_filter_simps split: option.splits)

lemma one_per_key_unique:
  "one_per_key f coll \<Longrightarrow> d \<in> set coll \<Longrightarrow> d' \<in> set coll \<Longrightarrow>
   map_of d f = Some v \<Longrightarrow> map_of d' f = Some v \<Longrightarrow> d' = d"
proof (induction coll)
  case Nil then show ?case by simp
next
  case (Cons a coll)
  then show ?case
    by (auto simp: one_per_key_def List.map_filter_simps set_map_filter_iff split: option.splits)
qed

lemma map_of_keep_id: "k \<noteq> ''_id'' \<Longrightarrow> map_of (keep_id old new) k = map_of new k"
  by (simp add: keep_id_def split: option.splits)

lemma replace_first_None_iff: "replace_first P new coll = None \<longleftrightarrow> (\<forall>d\<in>set coll. \<not> P d)"
  by (induction coll) auto

lemma replace_first_find:
  "replace_first P new coll = Some coll' \<Longrightarrow> P (keep_id d new) \<Longrightarrow> find P coll = Some d
   \<Longrightarrow> find P coll' = Some (keep_id d new)"
  by (induction coll arbitrary: coll') (auto split: if_splits)

lemma replace_first_Some_find:
  "replace_first P new coll = Some coll' \<Longrightarrow> \<exists>d. find P coll = Some d"
  by (induction coll arbitrary: coll') (auto split: if_splits)

lemma replace_first_map:
  "replace_first P new coll = Some coll' \<Longrightarrow> (\<And>d. P d \<Longrightarrow> g (keep_id d new) = g d)
   \<Longrightarrow> map g coll' = map g coll"
  by (induction coll arbitrary: coll') (auto split: if_splits)

lemma replace_first_find_other:
  "replace_first P new coll = Some coll' \<Longrightarrow> (\<And>d. P d \<Longrightarrow> \<not> Q d \<and> \<not> Q (keep_id d new))
   \<Longrightarrow> find Q coll' = find Q coll"
  by (induction coll arbitrary: coll') (auto split: if_splits)

lemma find_append_last: "(\<forall>d\<in>set xs. \<not> P d) \<Longrightarrow> P x \<Longrightarrow> find P (xs @ [x]) = Some x"
  by (induction xs) auto

lemma find_append_other: "\<not> Q x \<Longrightarrow> find Q (xs @ [x]) = find Q xs"
  by (induction xs) auto

lemma find_stronger:
  "find P xs = Some x \<Longrightarrow> Q x \<Longrightarrow> (\<And>y. Q y \<Longrightarrow> P y) \<Longrightarrow> find Q xs = Some x"
  by (induction xs) (auto split: if_splits)

text \<open>
  What \<open>upsert\<close> leaves under the key it writes, and under the other keys.
\<close>

lemma upsert_stored:
  assumes "map_of new f = Some v" "f \<noteq> ''_id''"
  shows "\<exists>d'. find_one [(f, Eq v)] (fst (upsert [(f, Eq v)] new coll n)) = Some d'
           \<and> (\<forall>k. k \<noteq> ''_id'' \<longrightarrow> map_of d' k = map_of new k)"
proof (cases "replace_first (matches [(f, Eq v)]) new coll")
  case None
  then have "\<forall>d\<in>set coll. \<not> matches [(f, Eq v)] d" by (simp add: replace_first_None_iff)
  moreover have "matches [(f, Eq v)] ((''_id'', VObjectId n) # new)"
    using assms by (simp add: matches_key)
  ultimately have "find_one [(f, Eq v)] (coll @ [(''_id'', VObjectId n) # new])
      = Some ((''_id'', VObjectId n) # new)"
    unfolding find_one_def by (rule find_append_last)
  then show ?thesis using None by (simp add: upsert_def)
next
  case (Some coll')
  from replace_first_Some_find[OF Some] obtain d where d: "find (matches [(f, Eq v)]) coll = Some d" ..
  have "matches [(f, Eq v)] (keep_id d new)"
    using assms by (simp add: matches_key map_of_keep_id)
  from replace_first_find[OF Some this d]
  have "find_one [(f, Eq v)] coll' = Some (keep_id d new)" by (simp add: find_one_def)
  then show ?thesis using Some assms by (simp add: upsert_def map_of_keep_id)
qed

lemma upsert_other:
  assumes "map_of new f = Some v" "f \<noteq> ''_id''" "v' \<noteq> v"
  shows "find_one [(f, Eq v')] (fst (upsert [(f, Eq v)] new coll n)) = find_one [(f, Eq v')] coll"
proof (cases "replace_first (matches [(f, Eq v)]) new coll")
  case None
  have "\<not> matches [(f, Eq v')] ((''_id'', VObjectId n) # new)"
    using assms by (simp add: matches_key)
  then show ?thesis using None by (simp add: upsert_def find_one_def find_append_other)
next
  case (Some coll')
  have "find (matches [(f, Eq v')]) coll' = find (matches [(f, Eq v')]) coll"
    by (rule replace_first_find_other[OF Some]) (use assms in \<open>auto simp: matches_key map_of_keep_id\<close>)
  then show ?thesis using Some by (simp add: upsert_def find_one_def)
qed

lemma map_filter_append: "List.map_filter g (xs @ ys) = List.map_filter g xs @ List.map_filter g ys"
  by (simp add: List.map_filter_def)

lemma map_filter_cong_map: "map g xs = map g ys \<Longrightarrow> List.map_filter g xs = List.map_filter g ys"
proof (induction xs arbitrary: ys)
  case Nil then show ?case by simp
next
  case (Cons x xs)
  then obtain y ys' where "ys = y # ys'" by (cases ys) auto
  with Cons show ?case by (auto simp: List.map_filter_simps split: option.splits)
qed

lemma upsert_one_per_key:
  assumes "map_of new f = Some v" "f \<noteq> ''_id''" "one_per_key f coll"
  shows "one_per_key f (fst (upsert [(f, Eq v)] new coll n))"
proof (cases "replace_first (matches [(f, Eq v)]) new coll")
  case None
  then have "\<forall>d\<in>set coll. map_of d f \<noteq> Some v" by (simp add: replace_first_None_iff matches_key)
  then have "v \<notin> set (List.map_filter (\<lambda>d. map_of d f) coll)" by (simp add: set_map_filter_iff)
  then show ?thesis using None assms
    by (simp add: upsert_def one_per_key_def map_filter_append List.map_filter_simps)
next
  case (Some coll')
  have "map (\<lambda>d. map_of d f) coll' = map (\<lambda>d. map_of d f) coll"
    by (rule replace_first_map[OF Some]) (use assms in \<open>simp add: matches_key map_of_keep_id\<close>)
  then have "List.map_filter (\<lambda>d. map_of d f) coll' = List.map_filter (\<lambda>d. map_of d f) coll"
    by (rule map_filter_cong_map)
  then show ?thesis using Some assms by (simp add: upsert_def one_per_key_def)
qed

text \<open>
  The encoding keeps the keys and cuts the values.
\<close>

lemma map_of_cut: "map_of (map (\<lambda>kv. (fst kv, bson_cut (snd kv))) d) k = map_option bson_cut (map_of d k)"
  by (induction d) auto

lemma to_bson_fields:
  "to_bson d = Inr st \<Longrightarrow> map_of st k = map_option bson_cut (map_of d k) \<and> map fst st = map fst d"
  by (auto simp: to_bson_def map_of_cut comp_def split: option.splits)

section \<open>The three outcomes of a handler\<close>

lemma weather_doc_fields:
  "weather_doc city body t = Inr doc \<Longrightarrow>
     map_of doc ''city'' = Some (VStr city) \<and> map_of doc ''updated_at'' = Some (VDatetime t)"
  by (auto simp: weather_doc_def WeatherData_def split: sum.splits val.splits if_splits)

lemma soil_doc_fields:
  "soil_doc pf p body t = Inr doc \<Longrightarrow>
     map_of doc ''polygon_id'' = Some (VStr p) \<and> map_of doc ''updated_at'' = Some (VDatetime t)"
  by (auto simp: soil_doc_def SoilData_def split: sum.splits option.splits)

lemma weather_stored_fields:
  "weather_doc city body t = Inr doc \<Longrightarrow> to_bson doc = Inr st \<Longrightarrow>
     map_of st ''city'' = Some (VStr city) \<and> map_of st ''updated_at'' = Some (VDatetime (ms t))"
  using weather_doc_fields[of city body t doc] to_bson_fields[of doc st] by simp

lemma soil_stored_fields:
  "soil_doc pf p body t = Inr doc \<Longrightarrow> to_bson doc = Inr st \<Longrightarrow>
     map_of st ''polygon_id'' = Some (VStr p) \<and> map_of st ''updated_at'' = Some (VDatetime (ms t))"
  using soil_doc_fields[of pf p body t doc] to_bson_fields[of doc st] by simp

lemma get_weather_hit:
  "find_one (weather_filter city now) (weather s) = Some d \<Longrightarrow>
   get_weather api now now' city s = (Inr d, s)"
  by (simp add: get_weather_def get_weather_try_def)

lemma get_weather_refresh:
  "find_one (weather_filter city now) (weather s) = None \<Longrightarrow> api city = Some body \<Longrightarrow>
   body \<noteq> [] \<Longrightarrow> weather_doc city body now' = Inr doc \<Longrightarrow> to_bson doc = Inr st \<Longrightarrow>
   get_weather api now now' city s =
     (Inr doc, s\<lparr>outbound := outbound s @ [WeatherRequest city],
                 weather := fst (upsert [(''city'', Eq (VStr city))] st (weather s) (next_oid s)),
                 next_oid := snd (upsert [(''city'', Eq (VStr city))] st (weather s) (next_oid s))\<rparr>)"
  by (simp add: get_weather_def get_weather_try_def fetch_weather_data_def replace_one_def
      split: prod.splits)

lemma get_weather_failed:
  "find_one (weather_filter city now) (weather s) = None \<Longrightarrow>
   api city = None \<or> api city = Some []
     \<or> (\<exists>body e. api city = Some body \<and> weather_doc city body now' = Inl e)
     \<or> (\<exists>body doc e. api city = Some body \<and> weather_doc city body now' = Inr doc
           \<and> to_bson doc = Inl e) \<Longrightarrow>
   get_weather api now now' city s =
     (Inl (HTTPException 500 ''Failed to fetch weather data''),
      s\<lparr>outbound := outbound s @ [WeatherRequest city]\<rparr>)"
  by (auto simp: get_weather_def get_weather_try_def fetch_weather_data_def replace_one_def
      split: prod.splits)

lemma get_soil_data_hit:
  "find_one (soil_filter p now) (soil s) = Some d \<Longrightarrow>
   get_soil_data pf api now now' p s = (Inr d, s)"
  by (simp add: get_soil_data_def get_soil_data_try_def)

lemma get_soil_data_refresh:
  "find_one (soil_filter p now) (soil s) = None \<Longrightarrow> api p = Some body \<Longrightarrow>
   body \<noteq> [] \<Longrightarrow> soil_doc pf p body now' = Inr doc \<Longrightarrow> to_bson doc = Inr st \<Longrightarrow>
   get_soil_data pf api now now' p s =
     (Inr doc, s\<lparr>outbound := outbound s @ [SoilRequest p],
                 soil := fst (upsert [(''polygon_id'', Eq (VStr p))] st (soil s) (next_oid s)),
                 next_oid := snd (upsert [(''polygon_id'', Eq (VStr p))] st (soil s) (next_oid s))\<rparr>)"
  by (simp add: get_soil_data_def get_soil_data_try_def fetch_soil_data_def replace_one_def
      split: prod.splits)

lemma get_soil_data_failed:
  "find_one (soil_filter p now) (soil s) = None \<Longrightarrow>
   api p = None \<or> api p = Some []
     \<or> (\<exists>body e. api p = Some body \<and> soil_doc pf p body now' = Inl e)
     \<or> (\<exists>body doc e. api p = Some body \<and> soil_doc pf p body now' = Inr doc
           \<and> to_bson doc = Inl e) \<Longrightarrow>
   get_soil_data pf api now now' p s =
     (Inl (HTTPException 500 ''Failed to fetch soil data''),
      s\<lparr>outbound := outbound s @ [SoilRequest p]\<rparr>)"
  by (auto simp: get_soil_data_def get_soil_data_try_def fetch_soil_data_def replace_one_def
      split: prod.splits)

text \<open>
  The three outcomes are exhaustive.
\<close>

lemma get_weather_cases:
  obtains (hit) d where "find_one (weather_filter city now) (weather s) = Some d"
  | (refresh) body doc st where "find_one (weather_filter city now) (weather s) = None"
      "api city = Some body" "body \<noteq> []" "weather_doc city body now' = Inr doc"
      "to_bson doc = Inr st"
  | (failed) "find_one (weather_filter city now) (weather s) = None"
      "api city = None \<or> api city = Some []
        \<or> (\<exists>body e. api city = Some body \<and> weather_doc city body now' = Inl e)
        \<or> (\<exists>body doc e. api city = Some body \<and> weather_doc city body now' = Inr doc
              \<and> to_bson doc = Inl e)"
proof (cases "find_one (weather_filter city now) (weather s)")
  case (Some d) then show ?thesis by (rule hit)
next
  case None
  show ?thesis
  proof (cases "api city")
    case N: None with None show ?thesis by (intro failed) auto
  next
    case (Some body)
    show ?thesis
    proof (cases "body = []")
      case True with None Some show ?thesis by (intro failed) auto
    next
      case False
      show ?thesis
      proof (cases "weather_doc city body now'")
        case (Inl e) with None Some show ?thesis by (intro failed) auto
      next
        case (Inr doc)
        show ?thesis
        proof (cases "to_bson doc")
          case E: (Inl e) with None Some Inr show ?thesis by (intro failed) auto
        next
          case S: (Inr st) with None Some False Inr show ?thesis by (intro refresh)
        qed
      qed
    qed
  qed
qed

lemma get_soil_data_cases:
  obtains (hit) d where "find_one (soil_filter p now) (soil s) = Some d"
  | (refresh) body doc st where "find_one (soil_filter p now) (soil s) = None"
      "api p = Some body" "body \<noteq> []" "soil_doc pf p body now' = Inr doc"
      "to_bson doc = Inr st"
  | (failed) "find_one (soil_filter p now) (soil s) = None"
      "api p = None \<or> api p = Some []
        \<or> (\<exists>body e. api p = Some body \<and> soil_doc pf p body now' = Inl e)
        \<or> (\<exists>body doc e. api p = Some body \<and> soil_doc pf p body now' = Inr doc
              \<and> to_bson doc = Inl e)"
proof (cases "find_one (soil_filter p now) (soil s)")
  case (Some d) then show ?thesis by (rule hit)
next
  case None
  show ?thesis
  proof (cases "api p")
    case N: None with None show ?thesis by (intro failed) auto
  next
    case (Some body)
    show ?thesis
    proof (cases "body = []")
      case True with None Some show ?thesis by (intro failed) auto
    next
      case False
      show ?thesis
      proof (cases "soil_doc pf p body now'")
        case (Inl e) with None Some show ?thesis by (intro failed) auto
      next
        case (Inr doc)
        show ?thesis
        proof (cases "to_bson doc")
          case E: (Inl e) with None Some Inr show ?thesis by (intro failed) auto
        next
          case S: (Inr st) with None Some False Inr show ?thesis by (intro refresh)
        qed
      qed
    qed
  qed
qed

lemma get_weather_store_cases:
  "snd (get_weather api now now' city s) = s
   \<or> snd (get_weather api now now' city s) = s\<lparr>outbound := outbound s @ [WeatherRequest city]\<rparr>
   \<or> (\<exists>body doc st. find_one (weather_filter city now) (weather s) = None \<and> api city = Some body
        \<and> body \<noteq> [] \<and> weather_doc city body now' = Inr doc \<and> to_bson doc = Inr st
        \<and> snd (get_weather api now now' city s) =
            s\<lparr>outbound := outbound s @ [WeatherRequest city],
              weather := fst (upsert [(''city'', Eq (VStr city))] st (weather s) (next_oid s)),
              next_oid := snd (upsert [(''city'', Eq (VStr city))] st (weather s) (next_oid s))\<rparr>)"
proof (cases rule: get_weather_cases[where city=city and now=now and s=s and api=api and now'=now'])
  case (hit d) then show ?thesis by (simp add: get_weather_hit)
next
  case (refresh body doc st)
  then show ?thesis by (simp add: get_weather_refresh)
next
  case failed then show ?thesis by (simp add: get_weather_failed)
qed

lemma get_soil_data_store_cases:
  "snd (get_soil_data pf api now now' p s) = s
   \<or> snd (get_soil_data pf api now now' p s) = s\<lparr>outbound := outbound s @ [SoilRequest p]\<rparr>
   \<or> (\<exists>body doc st. find_one (soil_filter p now) (soil s) = None \<and> api p = Some body
        \<and> body \<noteq> [] \<and> soil_doc pf p body now' = Inr doc \<and> to_bson doc = Inr st
        \<and> snd (get_soil_data pf api now now' p s) =
            s\<lparr>outbound := outbound s @ [SoilRequest p],
              soil := fst (upsert [(''polygon_id'', Eq (VStr p))] st (soil s) (next_oid s)),
              next_oid := snd (upsert [(''polygon_id'', Eq (VStr p))] st (soil s) (next_oid s))\<rparr>)"
proof (cases rule: get_soil_data_cases[where p=p and now=now and s=s and api=api and now'=now' and pf=pf])
  case (hit d) then show ?thesis by (simp add: get_soil_data_hit)
next
  case (refresh body doc st)
  then show ?thesis by (simp add: get_soil_data_refresh)
next
  case failed then show ?thesis by (simp add: get_soil_data_failed)
qed

lemma get_weather_no_write:
  assumes "api city = None \<or> api city = Some []
     \<or> (\<exists>body e. api city = Some body \<and> weather_doc city body now' = Inl e)
     \<or> (\<exists>body doc e. api city = Some body \<and> weather_doc city body now' = Inr doc
           \<and> to_bson doc = Inl e)"
  shows "weather (snd (get_weather api now now' city s)) = weather s
       \<and> soil (snd (get_weather api now now' city s)) = soil s
       \<and> next_oid (snd (get_weather api now now' city s)) = next_oid s"
proof (cases "find_one (weather_filter city now) (weather s)")
  case None
  from None assms show ?thesis by (simp add: get_weather_failed)
next
  case (Some d)
  from get_weather_hit[OF Some] show ?thesis by simp
qed

lemma get_soil_data_no_write:
  assumes "api p = None \<or> api p = Some []
     \<or> (\<exists>body e. api p = Some body \<and> soil_doc pf p body now' = Inl e)
     \<or> (\<exists>body doc e. api p = Some body \<and> soil_doc pf p body now' = Inr doc
           \<and> to_bson doc = Inl e)"
  shows "weather (snd (get_soil_data pf api now now' p s)) = weather s
       \<and> soil (snd (get_soil_data pf api now now' p s)) = soil s
       \<and> next_oid (snd (get_soil_data pf api now now' p s)) = next_oid s"
proof (cases "find_one (soil_filter p now) (soil s)")
  case None
  from None assms show ?thesis by (simp add: get_soil_data_failed)
next
  case (Some d)
  from get_soil_data_hit[OF Some] show ?thesis by simp
qed

lemma find_one_fresh:
  assumes "d \<in> set coll" "matches q d"
  shows "\<exists>d'. find_one q coll = Some d'"
  using assms by (cases "find_one q coll") (auto simp: find_one_None_iff)

lemma get_weather_miss_outbound:
  "find_one (weather_filter city now) (weather s) = None \<Longrightarrow>
   outbound (snd (get_weather api now now' city s)) = outbound s @ [WeatherRequest city]"
  by (cases rule: get_weather_cases[where city=city and now=now and s=s and api=api and now'=now'])
     (simp_all add: get_weather_refresh get_weather_failed)

lemma get_soil_data_miss_outbound:
  "find_one (soil_filter p now) (soil s) = None \<Longrightarrow>
   outbound (snd (get_soil_data pf api now now' p s)) = outbound s @ [SoilRequest p]"
  by (cases rule: get_soil_data_cases[where p=p and now=now and s=s and api=api and now'=now' and pf=pf])
     (simp_all add: get_soil_data_refresh get_soil_data_failed)

lemma find_one_unique:
  assumes "one_per_key f coll" "d \<in> set coll" "map_of d f = Some v"
    "\<And>d'. matches q d' \<Longrightarrow> map_of d' f = Some v"
  shows "find_one q coll = (if matches q d then Some d else None)"
proof (cases "find_one q coll")
  case None
  with assms(2) show ?thesis by (auto simp: find_one_None_iff)
next
  case (Some d')
  from find_one_SomeD[OF Some] have m: "d' \<in> set coll" "matches q d'" by auto
  from one_per_key_unique[OF assms(1) assms(2) m(1) assms(3) assms(4)[OF m(2)]]
  show ?thesis using Some m by simp
qed

lemma weather_filter_implies_key: "matches (weather_filter key now) d \<Longrightarrow> matches [(''city'', Eq (VStr key))] d"
  by (simp add: matches_weather_filter matches_key)

lemma soil_filter_implies_key: "matches (soil_filter key now) d \<Longrightarrow> matches [(''polygon_id'', Eq (VStr key))] d"
  by (simp add: matches_soil_filter matches_key)

lemma cache_miss_iff:
  "find_one (weather_filter key now) coll = None \<longleftrightarrow>
     (\<forall>d\<in>set coll. map_of d ''city'' = Some (VStr key) \<longrightarrow>
        (\<forall>u. map_of d ''updated_at'' = Some (VDatetime u) \<longrightarrow> u < ms (now - hours 1)))"
  "find_one (soil_filter key now) coll = None \<longleftrightarrow>
     (\<forall>d\<in>set coll. map_of d ''polygon_id'' = Some (VStr key) \<longrightarrow>
        (\<forall>u. map_of d ''updated_at'' = Some (VDatetime u) \<longrightarrow> u < ms (now - hours 6)))"
  by (auto simp: find_one_None_iff matches_weather_filter matches_soil_filter not_le)

lemma within_window: "now - u \<le> w \<Longrightarrow> ms (now - w) \<le> u"
  using ms_le[of "now - w"] by simp

lemma past_window: "w + 1000 \<le> now - u \<Longrightarrow> u < ms (now - w)"
  using ms_gt[of "now - w"] by simp

section \<open>Facts about sequences of requests\<close>

lemma step_cache_inv: "cache_inv s \<Longrightarrow> cache_inv (step c s)"
proof (cases c)
  case (GetWeather api now now' city)
  assume inv: "cache_inv s"
  from get_weather_store_cases[of api now now' city s] show ?thesis
  proof (elim disjE exE conjE)
    fix body doc st
    assume d: "weather_doc city body now' = Inr doc" "to_bson doc = Inr st"
      and e: "snd (get_weather api now now' city s) =
            s\<lparr>outbound := outbound s @ [WeatherRequest city],
              weather := fst (upsert [(''city'', Eq (VStr city))] st (weather s) (next_oid s)),
              next_oid := snd (upsert [(''city'', Eq (VStr city))] st (weather s) (next_oid s))\<rparr>"
    from weather_stored_fields[OF d] have "map_of st ''city'' = Some (VStr city)" by simp
    from upsert_one_per_key[OF this] inv e GetWeather
    show ?thesis by (simp add: cache_inv_def)
  qed (use inv GetWeather in \<open>simp_all add: cache_inv_def\<close>)
next
  case (GetSoil pf api now now' p)
  assume inv: "cache_inv s"
  from get_soil_data_store_cases[of pf api now now' p s] show ?thesis
  proof (elim disjE exE conjE)
    fix body doc st
    assume d: "soil_doc pf p body now' = Inr doc" "to_bson doc = Inr st"
      and e: "snd (get_soil_data pf api now now' p s) =
            s\<lparr>outbound := outbound s @ [SoilRequest p],
              soil := fst (upsert [(''polygon_id'', Eq (VStr p))] st (soil s) (next_oid s)),
              next_oid := snd (upsert [(''polygon_id'', Eq (VStr p))] st (soil s) (next_oid s))\<rparr>"
    from soil_stored_fields[OF d] have "map_of st ''polygon_id'' = Some (VStr p)" by simp
    from upsert_one_per_key[OF this] inv e GetSoil
    show ?thesis by (simp add: cache_inv_def)
  qed (use inv GetSoil in \<open>simp_all add: cache_inv_def\<close>)
qed

lemma stored_updated_at_SomeD:
  "stored_updated_at f k coll = Some u \<Longrightarrow>
   \<exists>d. find_one [(f, Eq (VStr k))] coll = Some d \<and> map_of d ''updated_at'' = Some (VDatetime u)"
  by (auto simp: stored_updated_at_def split: option.splits val.splits)

lemma upsert_updated_at:
  assumes new: "map_of new f = Some (VStr key)" "map_of new ''updated_at'' = Some (VDatetime t)"
    and f: "f \<noteq> ''_id''"
    and old: "stored_updated_at f k coll = Some u"
    and le: "k = key \<Longrightarrow> u \<le> t"
  shows "\<exists>u'. stored_updated_at f k (fst (upsert [(f, Eq (VStr key))] new coll n)) = Some u' \<and> u \<le> u'"
proof (cases "k = key")
  case True
  from upsert_stored[OF new(1) f, of coll n]
  obtain d' where "find_one [(f, Eq (VStr key))] (fst (upsert [(f, Eq (VStr key))] new coll n)) = Some d'"
    "\<forall>k. k \<noteq> ''_id'' \<longrightarrow> map_of d' k = map_of new k" by auto
  with new(2) True le show ?thesis by (simp add: stored_updated_at_def)
next
  case False
  then have "VStr k \<noteq> VStr key" by simp
  from upsert_other[OF new(1) f this] old show ?thesis by (simp add: stored_updated_at_def)
qed

lemma stale_before_now:
  assumes "find_one q coll = None" "find_one [(f, Eq (VStr k))] coll = Some d"
    "map_of d ''updated_at'' = Some (VDatetime u)"
    "matches q d \<longleftrightarrow> map_of d f = Some (VStr k) \<and> (\<exists>u. map_of d ''updated_at'' = Some (VDatetime u) \<and> t \<le> u)"
  shows "u < t"
proof -
  from find_one_SomeD[OF assms(2)] have "d \<in> set coll" "map_of d f = Some (VStr k)"
    by (auto simp: matches_key)
  with assms(1) assms(3) assms(4) show ?thesis by (auto simp: find_one_None_iff)
qed

lemma window_before_write: "now \<le> now' \<Longrightarrow> 0 \<le> w \<Longrightarrow> ms (now - w) \<le> ms now'"
  by (rule ms_mono) simp

lemma step_weather_updated_at:
  assumes "clock_ok c" "stored_updated_at ''city'' k (weather s) = Some u"
  shows "\<exists>u'. stored_updated_at ''city'' k (weather (step c s)) = Some u' \<and> u \<le> u'"
proof (cases c)
  case (GetWeather api now now' city)
  from get_weather_store_cases[of api now now' city s] show ?thesis
  proof (elim disjE exE conjE)
    fix body doc st
    assume miss: "find_one (weather_filter city now) (weather s) = None"
      and d: "weather_doc city body now' = Inr doc" "to_bson doc = Inr st"
      and e: "snd (get_weather api now now' city s) =
            s\<lparr>outbound := outbound s @ [WeatherRequest city],
              weather := fst (upsert [(''city'', Eq (VStr city))] st (weather s) (next_oid s)),
              next_oid := snd (upsert [(''city'', Eq (VStr city))] st (weather s) (next_oid s))\<rparr>"
    note fl = weather_stored_fields[OF d]
    have le: "u \<le> ms now'" if "k = city"
    proof -
      from stored_updated_at_SomeD[OF assms(2)] that obtain d0 where
        d0: "find_one [(''city'', Eq (VStr city))] (weather s) = Some d0"
          "map_of d0 ''updated_at'' = Some (VDatetime u)" by auto
      have "u < ms (now - hours 1)"
        by (rule stale_before_now[OF miss d0]) (simp add: matches_weather_filter)
      moreover have "ms (now - hours 1) \<le> ms now'"
        using assms(1) GetWeather by (intro window_before_write) (simp_all add: hours_nonneg)
      ultimately show ?thesis by simp
    qed
    from fl have "map_of st ''city'' = Some (VStr city)" "map_of st ''updated_at'' = Some (VDatetime (ms now'))"
      by simp_all
    from upsert_updated_at[OF this _ assms(2) le, of "next_oid s"] e GetWeather
    show ?thesis by simp
  qed (use assms GetWeather in simp_all)
next
  case (GetSoil pf api now now' p)
  from get_soil_data_store_cases[of pf api now now' p s]
  have "weather (snd (get_soil_data pf api now now' p s)) = weather s" by auto
  with assms GetSoil show ?thesis by simp
qed

lemma step_soil_updated_at:
  assumes "clock_ok c" "stored_updated_at ''polygon_id'' k (soil s) = Some u"
  shows "\<exists>u'. stored_updated_at ''polygon_id'' k (soil (step c s)) = Some u' \<and> u \<le> u'"
proof (cases c)
  case (GetSoil pf api now now' p)
  from get_soil_data_store_cases[of pf api now now' p s] show ?thesis
  proof (elim disjE exE conjE)
    fix body doc st
    assume miss: "find_one (soil_filter p now) (soil s) = None"
      and d: "soil_doc pf p body now' = Inr doc" "to_bson doc = Inr st"
      and e: "snd (get_soil_data pf api now now' p s) =
            s\<lparr>outbound := outbound s @ [SoilRequest p],
              soil := fst (upsert [(''polygon_id'', Eq (VStr p))] st (soil s) (next_oid s)),
              next_oid := snd (upsert [(''polygon_id'', Eq (VStr p))] st (soil s) (next_oid s))\<rparr>"
    note fl = soil_stored_fields[OF d]
    have le: "u \<le> ms now'" if "k = p"
    proof -
      from stored_updated_at_SomeD[OF assms(2)] that obtain d0 where
        d0: "find_one [(''polygon_id'', Eq (VStr p))] (soil s) = Some d0"
          "map_of d0 ''updated_at'' = Some (VDatetime u)" by auto
      have "u < ms (now - hours 6)"
        by (rule stale_before_now[OF miss d0]) (simp add: matches_soil_filter)
      moreover have "ms (now - hours 6) \<le> ms now'"
        using assms(1) GetSoil by (intro window_before_write) (simp_all add: hours_nonneg)
      ultimately show ?thesis by simp
    qed
    from fl have "map_of st ''polygon_id'' = Some (VStr p)" "map_of st ''updated_at'' = Some (VDatetime (ms now'))"
      by simp_all
    from upsert_updated_at[OF this _ assms(2) le, of "next_oid s"] e GetSoil
    show ?thesis by simp
  qed (use assms GetSoil in simp_all)
next
  case (GetWeather api now now' city)
  from get_weather_store_cases[of api now now' city s]
  have "soil (snd (get_weather api now now' city s)) = soil s" by auto
  with assms GetWeather show ?thesis by simp
qed

lemma run_weather_updated_at:
  "list_all clock_ok calls \<Longrightarrow> stored_updated_at ''city'' k (weather s) = Some u \<Longrightarrow>
   \<exists>u'. stored_updated_at ''city'' k (weather (run calls s)) = Some u' \<and> u \<le> u'"
proof (induction calls arbitrary: s u)
  case Nil then show ?case by (simp add: run_def)
next
  case (Cons c calls)
  from Cons.prems have c: "clock_ok c" "list_all clock_ok calls" by simp_all
  from step_weather_updated_at[OF c(1) Cons.prems(2)] obtain u1 where
    u1: "stored_updated_at ''city'' k (weather (step c s)) = Some u1" "u \<le> u1" by auto
  from Cons.IH[OF c(2) u1(1)] u1(2) show ?case by (auto simp: run_def)
qed

lemma run_soil_updated_at:
  "list_all clock_ok calls \<Longrightarrow> stored_updated_at ''polygon_id'' k (soil s) = Some u \<Longrightarrow>
   \<exists>u'. stored_updated_at ''polygon_id'' k (soil (run calls s)) = Some u' \<and> u \<le> u'"
proof (induction calls arbitrary: s u)
  case Nil then show ?case by (simp add: run_def)
next
  case (Cons c calls)
  from Cons.prems have c: "clock_ok c" "list_all clock_ok calls" by simp_all
  from step_soil_updated_at[OF c(1) Cons.prems(2)] obtain u1 where
    u1: "stored_updated_at ''polygon_id'' k (soil (step c s)) = Some u1" "u \<le> u1" by auto
  from Cons.IH[OF c(2) u1(1)] u1(2) show ?case by (auto simp: run_def)
qed

section \<open>Facts about the recommendation loop\<close>

lemma score_crop_numeric:
  assumes "as_number temp = Some t" "as_number moisture = Some m"
  shows "\<exists>r. score_crop repr temp moisture c = Inr (Some r) \<and> crop_name r = name c
           \<and> 0.6 < confidence_score r \<and> confidence_score r \<le> 1"
  using assms by (simp add: score_crop_def py_between_def py_gt_def Let_def)

lemma recommend_loop_numeric:
  assumes "as_number temp = Some t" "as_number moisture = Some m"
  shows "\<exists>rs. recommend_loop repr temp moisture cs acc = Inr (acc @ rs)
           \<and> map crop_name rs = map name cs
           \<and> (\<forall>r\<in>set rs. 0.6 < confidence_score r \<and> confidence_score r \<le> 1)"
proof (induction cs arbitrary: acc)
  case Nil then show ?case by simp
next
  case (Cons c cs)
  from score_crop_numeric[OF assms, of repr c] obtain r where
    r: "score_crop repr temp moisture c = Inr (Some r)" "crop_name r = name c"
       "0.6 < confidence_score r" "confidence_score r \<le> 1" by auto
  from Cons.IH[of "acc @ [r]"] obtain rs where
    rs: "recommend_loop repr temp moisture cs (acc @ [r]) = Inr ((acc @ [r]) @ rs)"
        "map crop_name rs = map name cs"
        "\<forall>r\<in>set rs. 0.6 < confidence_score r \<and> confidence_score r \<le> 1" by auto
  show ?case
    by (rule exI[of _ "r # rs"]) (use r rs in simp)
qed

lemma sorted_by_confidence:
  "sorted_wrt (\<lambda>a b. confidence_score b \<le> confidence_score a)
     (sort_key (\<lambda>r. - confidence_score r) rs)"
proof -
  have "sorted (map (\<lambda>r. - confidence_score r) (sort_key (\<lambda>r. - confidence_score r) rs))"
    by (rule sorted_sort_key)
  then show ?thesis by (simp add: sorted_map)
qed

lemma generate_depends_on_locals:
  "current_temp w = current_temp w' \<Longrightarrow> soil_moisture sd = soil_moisture sd' \<Longrightarrow>
   generate_crop_recommendations repr w sd loc = generate_crop_recommendations repr w' sd' loc'"
  by (simp add: generate_crop_recommendations_def split: sum.splits)

section \<open>Evaluation on the example data\<close>

lemmas example_defs = cached_state_def empty_state_def pune_cached_def plot_cached_def
  weather_api_def soil_api_def down_api_def no_parse_def

lemmas handler_defs = get_weather_def get_weather_try_def get_soil_data_def get_soil_data_try_def
  fetch_weather_data_def fetch_soil_data_def find_one_def matches_def weather_filter_def
  soil_filter_def hours_def ms_def

lemmas store_defs = replace_one_def upsert_def to_bson_def keep_id_def stored_updated_at_def
  one_per_key_def cache_inv_def List.map_filter_simps run_def weather_doc_def WeatherData_def
  soil_doc_def SoilData_def float_field_def kelvin_to_celsius_def dict_get_def

lemma one_per_key_cached:
  "one_per_key ''city'' (weather cached_state)" "one_per_key ''polygon_id'' (soil cached_state)"
  by (simp_all add: one_per_key_def cached_state_def pune_cached_def plot_cached_def List.map_filter_simps)

lemma numeric_string_is_parsed:
  "soil_doc decimal_parse ''poly123'' [(''t0'', VInt 295), (''moisture'', VStr ''0.25'')] 0
     = Inr [(''polygon_id'', VStr ''poly123''), (''temperature_surface'', VFloat 21.85),
            (''temperature_10cm'', VFloat 26.85), (''moisture'', VFloat 0.25),
            (''ph'', VFloat 6.5), (''updated_at'', VDatetime 0)]"
  by (simp add: soil_doc_def SoilData_def float_field_def kelvin_to_celsius_def dict_get_def
      decimal_parse_def fits_float_def)

lemma huge_int_overflows:
  "soil_doc no_parse ''poly123'' [(''t0'', VInt (2 ^ 1024))] 0 = Inl OverflowError"
  by (simp add: soil_doc_def kelvin_to_celsius_def dict_get_def fits_float_def)

section \<open>The cache policy\<close>

text \<open>
  C1. If the store holds a record for the key whose age \<open>now - updated_at\<close> is below the
  window (one hour for \<open>get_weather\<close>, six hours for \<open>get_soil_data\<close>), the handler returns a
  stored record of that key and leaves the whole state as it was: no request went out
  (\<open>outbound\<close> is unchanged) and nothing was written. Where the collection holds one record
  per key, the record returned is that very record.
\<close>

theorem fresh_record_served_from_cache:
  "(d \<in> set (weather s) \<and> map_of d ''city'' = Some (VStr key)
      \<and> map_of d ''updated_at'' = Some (VDatetime u) \<and> now - u < hours 1
    \<longrightarrow> (\<exists>d'. get_weather api now now' key s = (Inr d', s) \<and> d' \<in> set (weather s)
              \<and> map_of d' ''city'' = Some (VStr key)
              \<and> (one_per_key ''city'' (weather s) \<longrightarrow> d' = d)))
   \<and> (d \<in> set (soil s) \<and> map_of d ''polygon_id'' = Some (VStr key)
      \<and> map_of d ''updated_at'' = Some (VDatetime u) \<and> now - u < hours 6
    \<longrightarrow> (\<exists>d'. get_soil_data parse_float api now now' key s = (Inr d', s) \<and> d' \<in> set (soil s)
              \<and> map_of d' ''polygon_id'' = Some (VStr key)
              \<and> (one_per_key ''polygon_id'' (soil s) \<longrightarrow> d' = d)))"
proof (intro conjI impI; elim conjE)
  assume a: "d \<in> set (weather s)" "map_of d ''city'' = Some (VStr key)"
    "map_of d ''updated_at'' = Some (VDatetime u)" "now - u < hours 1"
  from a(4) have "ms (now - hours 1) \<le> u" by (intro within_window) simp
  with a have "matches (weather_filter key now) d" by (simp add: matches_weather_filter)
  from find_one_fresh[OF a(1) this]
  obtain d' where f: "find_one (weather_filter key now) (weather s) = Some d'" ..
  from find_one_SomeD[OF f] have m: "d' \<in> set (weather s)" "map_of d' ''city'' = Some (VStr key)"
    by (auto simp: matches_weather_filter)
  from get_weather_hit[OF f] m one_per_key_unique[OF _ a(1) m(1) a(2) m(2)]
  show "\<exists>d'. get_weather api now now' key s = (Inr d', s) \<and> d' \<in> set (weather s)
              \<and> map_of d' ''city'' = Some (VStr key)
              \<and> (one_per_key ''city'' (weather s) \<longrightarrow> d' = d)" by auto
next
  assume a: "d \<in> set (soil s)" "map_of d ''polygon_id'' = Some (VStr key)"
    "map_of d ''updated_at'' = Some (VDatetime u)" "now - u < hours 6"
  from a(4) have "ms (now - hours 6) \<le> u" by (intro within_window) simp
  with a have "matches (soil_filter key now) d" by (simp add: matches_soil_filter)
  from find_one_fresh[OF a(1) this]
  obtain d' where f: "find_one (soil_filter key now) (soil s) = Some d'" ..
  from find_one_SomeD[OF f] have m: "d' \<in> set (soil s)" "map_of d' ''polygon_id'' = Some (VStr key)"
    by (auto simp: matches_soil_filter)
  from get_soil_data_hit[OF f] m one_per_key_unique[OF _ a(1) m(1) a(2) m(2)]
  show "\<exists>d'. get_soil_data parse_float api now now' key s = (Inr d', s) \<and> d' \<in> set (soil s)
              \<and> map_of d' ''polygon_id'' = Some (VStr key)
              \<and> (one_per_key ''polygon_id'' (soil s) \<longrightarrow> d' = d)" by auto
qed

text \<open>
  A record written at time 0 is returned one microsecond before its window closes, with
  the provider down.
\<close>

theorem fresh_record_served_from_cache_witness:
  "get_weather down_api (hours 1 - 1) (hours 1 - 1) ''Pune'' cached_state = (Inr pune_cached, cached_state)
   \<and> get_soil_data no_parse down_api (hours 6 - 1) (hours 6 - 1) ''poly123'' cached_state
       = (Inr plot_cached, cached_state)"
proof -
  have w: "pune_cached \<in> set (weather cached_state)" "map_of pune_cached ''city'' = Some (VStr ''Pune'')"
    "map_of pune_cached ''updated_at'' = Some (VDatetime 0)" "(hours 1 - 1) - 0 < hours 1"
    and p: "plot_cached \<in> set (soil cached_state)"
    "map_of plot_cached ''polygon_id'' = Some (VStr ''poly123'')"
    "map_of plot_cached ''updated_at'' = Some (VDatetime 0)" "(hours 6 - 1) - 0 < hours 6"
    by (simp_all add: example_defs)
  from fresh_record_served_from_cache[where d=pune_cached and s=cached_state and key="''Pune''"
         and u=0 and now="hours 1 - 1" and api=down_api and now'="hours 1 - 1"]
       fresh_record_served_from_cache[where d=plot_cached and s=cached_state and key="''poly123''"
         and u=0 and now="hours 6 - 1" and api=down_api and now'="hours 6 - 1" and parse_float=no_parse]
    w p one_per_key_cached
  show ?thesis by auto
qed

text \<open>
  C2. If the fetcher fails (the exchange raises, the body is empty, the document cannot
  be built from the body, or the store's encoder rejects the document), neither handler
  writes: both collections and the ObjectId counter are what they were before the call.
  This holds whatever the cache held, so in particular when no fresh record exists.
\<close>

theorem failed_fetch_writes_nothing:
  "((api key = None \<or> api key = Some []
       \<or> (\<exists>body e. api key = Some body \<and> weather_doc key body now' = Inl e)
       \<or> (\<exists>body doc e. api key = Some body \<and> weather_doc key body now' = Inr doc
             \<and> to_bson doc = Inl e))
     \<longrightarrow> weather (snd (get_weather api now now' key s)) = weather s
       \<and> soil (snd (get_weather api now now' key s)) = soil s
       \<and> next_oid (snd (get_weather api now now' key s)) = next_oid s)
   \<and> ((api key = None \<or> api key = Some []
       \<or> (\<exists>body e. api key = Some body \<and> soil_doc parse_float key body now' = Inl e)
       \<or> (\<exists>body doc e. api key = Some body \<and> soil_doc parse_float key body now' = Inr doc
             \<and> to_bson doc = Inl e))
     \<longrightarrow> weather (snd (get_soil_data parse_float api now now' key s)) = weather s
       \<and> soil (snd (get_soil_data parse_float api now now' key s)) = soil s
       \<and> next_oid (snd (get_soil_data parse_float api now now' key s)) = next_oid s)"
  using get_weather_no_write[where api=api and city=key and now'=now' and now=now and s=s]
    get_soil_data_no_write[where api=api and p=key and now'=now' and now=now and s=s and pf=parse_float]
  by blast

text \<open>
  With the provider down and both cached records past their windows, and with a provider
  whose answer cannot be encoded, the collections still hold exactly the old records.
\<close>

theorem failed_fetch_writes_nothing_witness:
  "weather (snd (get_weather down_api (hours 2) (hours 2) ''Pune'' cached_state)) = [pune_cached]
   \<and> soil (snd (get_soil_data no_parse down_api (hours 7) (hours 7) ''poly123'' cached_state))
       = [plot_cached]
   \<and> weather (snd (get_weather huge_api (hours 2) (hours 2) ''Pune'' cached_state)) = [pune_cached]"
proof -
  let ?doc = "[(''city'', VStr ''Pune''), (''current'', VDict [(''visibility'', VInt (2 ^ 63))]),
               (''forecast'', VList []), (''updated_at'', VDatetime (hours 2))]"
  have d: "down_api ''Pune'' = None" "down_api ''poly123'' = None" by (simp_all add: down_api_def)
  have "huge_api ''Pune'' = Some [(''currentConditions'', VDict [(''visibility'', VInt (2 ^ 63))])]"
    "weather_doc ''Pune'' [(''currentConditions'', VDict [(''visibility'', VInt (2 ^ 63))])] (hours 2)
       = Inr ?doc"
    "to_bson ?doc = Inl OverflowError"
    by (simp_all add: huge_api_def weather_doc_def WeatherData_def dict_get_def to_bson_def)
  then have e: "\<exists>body doc e. huge_api ''Pune'' = Some body \<and> weather_doc ''Pune'' body (hours 2) = Inr doc
      \<and> to_bson doc = Inl e" by blast
  from failed_fetch_writes_nothing[where api=down_api and key="''Pune''" and now="hours 2"
         and now'="hours 2" and s=cached_state]
       failed_fetch_writes_nothing[where api=down_api and key="''poly123''" and now="hours 7"
         and now'="hours 7" and s=cached_state and parse_float=no_parse]
       failed_fetch_writes_nothing[where api=huge_api and key="''Pune''" and now="hours 2"
         and now'="hours 2" and s=cached_state] d e
  show ?thesis by (simp add: cached_state_def)
qed

text \<open>
  C3, as the code has it. The handler refreshes when \<open>find_one\<close> finds nothing under the
  cache filter, that is (\<open>cache_miss_iff\<close>) when every record of the key has an \<open>updated_at\<close>
  before \<open>now\<close> minus the window, cut down to the millisecond. If then the fetcher succeeds
  with a body from which the document \<open>doc\<close> is built and the store can encode \<open>doc\<close>, the
  handler sends exactly one request and returns \<open>doc\<close>, whose \<open>updated_at\<close> is the clock
  reading \<open>now'\<close> taken when the document was built. The record stored under the key
  afterwards has, apart from the store's own \<open>_id\<close>, exactly the fields of \<open>doc\<close>, each as
  the store encodes it (a datetime cut down to the millisecond): nothing of the previous
  payload survives, and the stored \<open>updated_at\<close> is \<open>now'\<close> cut down to the millisecond. The
  other collection is untouched.
\<close>

theorem refresh_replaces_record:
  "(find_one (weather_filter key now) (weather s) = None \<and> api key = Some body \<and> body \<noteq> []
      \<and> weather_doc key body now' = Inr doc \<and> to_bson doc = Inr stored
    \<longrightarrow> (\<exists>s' d'. get_weather api now now' key s = (Inr doc, s')
          \<and> outbound s' = outbound s @ [WeatherRequest key]
          \<and> find_one [(''city'', Eq (VStr key))] (weather s') = Some d'
          \<and> (\<forall>k. k \<noteq> ''_id'' \<longrightarrow> map_of d' k = map_option bson_cut (map_of doc k))
          \<and> map_of doc ''updated_at'' = Some (VDatetime now')
          \<and> map_of d' ''updated_at'' = Some (VDatetime (ms now'))
          \<and> soil s' = soil s))
   \<and> (find_one (soil_filter key now) (soil s) = None \<and> api key = Some body \<and> body \<noteq> []
      \<and> soil_doc parse_float key body now' = Inr doc \<and> to_bson doc = Inr stored
    \<longrightarrow> (\<exists>s' d'. get_soil_data parse_float api now now' key s = (Inr doc, s')
          \<and> outbound s' = outbound s @ [SoilRequest key]
          \<and> find_one [(''polygon_id'', Eq (VStr key))] (soil s') = Some d'
          \<and> (\<forall>k. k \<noteq> ''_id'' \<longrightarrow> map_of d' k = map_option bson_cut (map_of doc k))
          \<and> map_of doc ''updated_at'' = Some (VDatetime now')
          \<and> map_of d' ''updated_at'' = Some (VDatetime (ms now'))
          \<and> weather s' = weather s))"
proof (intro conjI impI; elim conjE)
  assume a: "find_one (weather_filter key now) (weather s) = None" "api key = Some body"
    "body \<noteq> []" "weather_doc key body now' = Inr doc" "to_bson doc = Inr stored"
  note f = weather_doc_fields[OF a(4)] and g = weather_stored_fields[OF a(4) a(5)]
  from g have "map_of stored ''city'' = Some (VStr key)" by simp
  from upsert_stored[OF this, of "weather s" "next_oid s"]
  obtain d' where "find_one [(''city'', Eq (VStr key))]
      (fst (upsert [(''city'', Eq (VStr key))] stored (weather s) (next_oid s))) = Some d'"
    "\<forall>k. k \<noteq> ''_id'' \<longrightarrow> map_of d' k = map_of stored k" by auto
  with f g get_weather_refresh[where api=api, OF a] to_bson_fields[OF a(5)]
  show "\<exists>s' d'. get_weather api now now' key s = (Inr doc, s')
          \<and> outbound s' = outbound s @ [WeatherRequest key]
          \<and> find_one [(''city'', Eq (VStr key))] (weather s') = Some d'
          \<and> (\<forall>k. k \<noteq> ''_id'' \<longrightarrow> map_of d' k = map_option bson_cut (map_of doc k))
          \<and> map_of doc ''updated_at'' = Some (VDatetime now')
          \<and> map_of d' ''updated_at'' = Some (VDatetime (ms now'))
          \<and> soil s' = soil s" by simp
next
  assume a: "find_one (soil_filter key now) (soil s) = None" "api key = Some body"
    "body \<noteq> []" "soil_doc parse_float key body now' = Inr doc" "to_bson doc = Inr stored"
  note f = soil_doc_fields[OF a(4)] and g = soil_stored_fields[OF a(4) a(5)]
  from g have "map_of stored ''polygon_id'' = Some (VStr key)" by simp
  from upsert_stored[OF this, of "soil s" "next_oid s"]
  obtain d' where "find_one [(''polygon_id'', Eq (VStr key))]
      (fst (upsert [(''polygon_id'', Eq (VStr key))] stored (soil s) (next_oid s))) = Some d'"
    "\<forall>k. k \<noteq> ''_id'' \<longrightarrow> map_of d' k = map_of stored k" by auto
  with f g get_soil_data_refresh[where api=api, OF a] to_bson_fields[OF a(5)]
  show "\<exists>s' d'. get_soil_data parse_float api now now' key s = (Inr doc, s')
          \<and> outbound s' = outbound s @ [SoilRequest key]
          \<and> find_one [(''polygon_id'', Eq (VStr key))] (soil s') = Some d'
          \<and> (\<forall>k. k \<noteq> ''_id'' \<longrightarrow> map_of d' k = map_option bson_cut (map_of doc k))
          \<and> map_of doc ''updated_at'' = Some (VDatetime now')
          \<and> map_of d' ''updated_at'' = Some (VDatetime (ms now'))
          \<and> weather s' = weather s" by simp
qed

text \<open>
  The claim as stated, with stale meaning \<open>now - updated_at \<ge>\<close> the window, fails at the
  edge of the window: a record written at time 0 and read at exactly one hour is returned
  from the cache; no request is sent although the provider would answer, and the record
  keeps \<open>updated_at = 0\<close>.
\<close>

theorem refresh_replaces_record_counterexample:
  "hours 1 - 0 \<ge> hours 1
   \<and> get_weather weather_api (hours 1) (hours 1) ''Pune''
         \<lparr>weather = [pune_cached], soil = [], next_oid = 1, outbound = []\<rparr>
       = (Inr pune_cached, \<lparr>weather = [pune_cached], soil = [], next_oid = 1, outbound = []\<rparr>)
   \<and> map_of pune_cached ''updated_at'' = Some (VDatetime 0)"
  by (simp add: handler_defs example_defs)

text \<open>
  Two hours (seven for soil) after the cached records were written, a successful fetch
  replaces them. The document is built one microsecond past the hour: the handler
  returns that reading, the store keeps the full hour.
\<close>

theorem refresh_replaces_record_witness:
  "(\<exists>s' d'. get_weather weather_api (hours 2) (hours 2 + 1) ''Pune'' cached_state
        = (Inr [(''city'', VStr ''Pune''), (''current'', VDict [(''temp'', VInt 28)]),
                (''forecast'', VList [VDict [(''temp'', VInt 28)]]),
                (''updated_at'', VDatetime (hours 2 + 1))], s')
      \<and> outbound s' = [WeatherRequest ''Pune'']
      \<and> find_one [(''city'', Eq (VStr ''Pune''))] (weather s') = Some d'
      \<and> map_of d' ''current'' = Some (VDict [(''temp'', VInt 28)])
      \<and> map_of d' ''updated_at'' = Some (VDatetime (hours 2)))
   \<and> (\<exists>s' d'. get_soil_data no_parse soil_api (hours 7) (hours 7 + 1) ''poly123'' cached_state
        = (Inr [(''polygon_id'', VStr ''poly123''), (''temperature_surface'', VFloat 22),
                (''temperature_10cm'', VFloat 20), (''moisture'', VFloat 0.25),
                (''ph'', VFloat 6.5), (''updated_at'', VDatetime (hours 7 + 1))], s')
      \<and> outbound s' = [SoilRequest ''poly123'']
      \<and> find_one [(''polygon_id'', Eq (VStr ''poly123''))] (soil s') = Some d'
      \<and> map_of d' ''moisture'' = Some (VFloat 0.25)
      \<and> map_of d' ''updated_at'' = Some (VDatetime (hours 7)))"
proof -
  let ?doc = "[(''city'', VStr ''Pune''), (''current'', VDict [(''temp'', VInt 28)]),
                (''forecast'', VList [VDict [(''temp'', VInt 28)]]),
                (''updated_at'', VDatetime (hours 2 + 1))]"
  let ?st = "[(''city'', VStr ''Pune''), (''current'', VDict [(''temp'', VInt 28)]),
                (''forecast'', VList [VDict [(''temp'', VInt 28)]]),
                (''updated_at'', VDatetime (hours 2))]"
  let ?body = "[(''currentConditions'', VDict [(''temp'', VInt 28)]),
           (''days'', VList [VDict [(''temp'', VInt 28)]])]"
  let ?sdoc = "[(''polygon_id'', VStr ''poly123''), (''temperature_surface'', VFloat 22),
                (''temperature_10cm'', VFloat 20), (''moisture'', VFloat 0.25),
                (''ph'', VFloat 6.5), (''updated_at'', VDatetime (hours 7 + 1))]"
  let ?sst = "[(''polygon_id'', VStr ''poly123''), (''temperature_surface'', VFloat 22),
                (''temperature_10cm'', VFloat 20), (''moisture'', VFloat 0.25),
                (''ph'', VFloat 6.5), (''updated_at'', VDatetime (hours 7))]"
  let ?sbody = "[(''t0'', VFloat 295.15), (''t10'', VFloat 293.15), (''moisture'', VFloat 0.25)]"
  have h: "find_one (weather_filter ''Pune'' (hours 2)) (weather cached_state) = None"
    "weather_api ''Pune'' = Some ?body" "?body \<noteq> []"
    "weather_doc ''Pune'' ?body (hours 2 + 1) = Inr ?doc" "to_bson ?doc = Inr ?st"
    by (simp_all add: handler_defs example_defs store_defs)
  have g: "find_one (soil_filter ''poly123'' (hours 7)) (soil cached_state) = None"
    "soil_api ''poly123'' = Some ?sbody" "?sbody \<noteq> []"
    "soil_doc no_parse ''poly123'' ?sbody (hours 7 + 1) = Inr ?sdoc" "to_bson ?sdoc = Inr ?sst"
    by (simp_all add: handler_defs example_defs store_defs)
  have m: "ms (hours 2 + 1) = hours 2" "ms (hours 7 + 1) = hours 7" by (simp_all add: ms_def hours_def)
  from refresh_replaces_record[where key="''Pune''" and now="hours 2" and s=cached_state
      and api=weather_api and body="?body" and now'="hours 2 + 1" and doc="?doc" and stored="?st"] h
  obtain s' d' where "get_weather weather_api (hours 2) (hours 2 + 1) ''Pune'' cached_state = (Inr ?doc, s')"
    "outbound s' = outbound cached_state @ [WeatherRequest ''Pune'']"
    "find_one [(''city'', Eq (VStr ''Pune''))] (weather s') = Some d'"
    "\<forall>k. k \<noteq> ''_id'' \<longrightarrow> map_of d' k = map_option bson_cut (map_of ?doc k)"
    "map_of d' ''updated_at'' = Some (VDatetime (ms (hours 2 + 1)))"
    by blast
  then have 1: "\<exists>s' d'. get_weather weather_api (hours 2) (hours 2 + 1) ''Pune'' cached_state = (Inr ?doc, s')
      \<and> outbound s' = [WeatherRequest ''Pune'']
      \<and> find_one [(''city'', Eq (VStr ''Pune''))] (weather s') = Some d'
      \<and> map_of d' ''current'' = Some (VDict [(''temp'', VInt 28)])
      \<and> map_of d' ''updated_at'' = Some (VDatetime (hours 2))"
    by (simp add: cached_state_def m)
  from refresh_replaces_record[where key="''poly123''" and now="hours 7" and s=cached_state
      and api=soil_api and body="?sbody" and now'="hours 7 + 1" and doc="?sdoc" and stored="?sst"
      and parse_float=no_parse] g
  obtain s' d' where "get_soil_data no_parse soil_api (hours 7) (hours 7 + 1) ''poly123'' cached_state = (Inr ?sdoc, s')"
    "outbound s' = outbound cached_state @ [SoilRequest ''poly123'']"
    "find_one [(''polygon_id'', Eq (VStr ''poly123''))] (soil s') = Some d'"
    "\<forall>k. k \<noteq> ''_id'' \<longrightarrow> map_of d' k = map_option bson_cut (map_of ?sdoc k)"
    "map_of d' ''updated_at'' = Some (VDatetime (ms (hours 7 + 1)))"
    by blast
  then have 2: "\<exists>s' d'. get_soil_data no_parse soil_api (hours 7) (hours 7 + 1) ''poly123'' cached_state = (Inr ?sdoc, s')
      \<and> outbound s' = [SoilRequest ''poly123'']
      \<and> find_one [(''polygon_id'', Eq (VStr ''poly123''))] (soil s') = Some d'
      \<and> map_of d' ''moisture'' = Some (VFloat 0.25)
      \<and> map_of d' ''updated_at'' = Some (VDatetime (hours 7))"
    by (simp add: cached_state_def m)
  from 1 2 show ?thesis by blast
qed

text \<open>
  C4, as the code has it. The cache filter is \<^verbatim>\<open>updated_at >= now - window\<close> and the store
  compares in milliseconds, so a record is treated as fresh if and only if its
  \<open>updated_at\<close> is not before \<open>now\<close> minus the window (one hour for weather, six for soil),
  cut down to the millisecond. For a collection with one record per key: a fresh record
  is returned and nothing changes; otherwise a request is sent to the provider. In terms
  of the age \<open>now - updated_at\<close>: a record no older than the window is fresh, the edge
  included, and a record at least one millisecond older than the window is not.
\<close>

theorem fresh_iff_within_window:
  "(d \<in> set (weather s) \<and> one_per_key ''city'' (weather s)
      \<and> map_of d ''city'' = Some (VStr key) \<and> map_of d ''updated_at'' = Some (VDatetime u)
    \<longrightarrow> (ms (now - hours 1) \<le> u \<longrightarrow> get_weather api now now' key s = (Inr d, s))
      \<and> (u < ms (now - hours 1) \<longrightarrow>
           outbound (snd (get_weather api now now' key s)) = outbound s @ [WeatherRequest key])
      \<and> (now - u \<le> hours 1 \<longrightarrow> get_weather api now now' key s = (Inr d, s))
      \<and> (hours 1 + 1000 \<le> now - u \<longrightarrow>
           outbound (snd (get_weather api now now' key s)) = outbound s @ [WeatherRequest key]))
   \<and> (d \<in> set (soil s) \<and> one_per_key ''polygon_id'' (soil s)
      \<and> map_of d ''polygon_id'' = Some (VStr key) \<and> map_of d ''updated_at'' = Some (VDatetime u)
    \<longrightarrow> (ms (now - hours 6) \<le> u \<longrightarrow> get_soil_data parse_float api now now' key s = (Inr d, s))
      \<and> (u < ms (now - hours 6) \<longrightarrow>
           outbound (snd (get_soil_data parse_float api now now' key s))
             = outbound s @ [SoilRequest key])
      \<and> (now - u \<le> hours 6 \<longrightarrow> get_soil_data parse_float api now now' key s = (Inr d, s))
      \<and> (hours 6 + 1000 \<le> now - u \<longrightarrow>
           outbound (snd (get_soil_data parse_float api now now' key s))
             = outbound s @ [SoilRequest key]))"
proof -
  have w: "(ms (now - hours 1) \<le> u \<longrightarrow> get_weather api now now' key s = (Inr d, s))
      \<and> (u < ms (now - hours 1) \<longrightarrow>
           outbound (snd (get_weather api now now' key s)) = outbound s @ [WeatherRequest key])"
    if a: "d \<in> set (weather s)" "one_per_key ''city'' (weather s)"
      "map_of d ''city'' = Some (VStr key)" "map_of d ''updated_at'' = Some (VDatetime u)"
  proof -
    have f: "find_one (weather_filter key now) (weather s)
        = (if matches (weather_filter key now) d then Some d else None)"
      by (rule find_one_unique[OF a(2) a(1) a(3)]) (simp add: matches_weather_filter)
    have "get_weather api now now' key s = (Inr d, s)" if "ms (now - hours 1) \<le> u"
    proof -
      from that a f have "find_one (weather_filter key now) (weather s) = Some d"
        by (simp add: matches_weather_filter)
      then show ?thesis by (rule get_weather_hit)
    qed
    moreover have "outbound (snd (get_weather api now now' key s)) = outbound s @ [WeatherRequest key]"
      if "u < ms (now - hours 1)"
    proof -
      from that a f have "find_one (weather_filter key now) (weather s) = None"
        by (simp add: matches_weather_filter)
      then show ?thesis by (rule get_weather_miss_outbound)
    qed
    ultimately show ?thesis by blast
  qed
  have p: "(ms (now - hours 6) \<le> u \<longrightarrow> get_soil_data parse_float api now now' key s = (Inr d, s))
      \<and> (u < ms (now - hours 6) \<longrightarrow>
           outbound (snd (get_soil_data parse_float api now now' key s))
             = outbound s @ [SoilRequest key])"
    if a: "d \<in> set (soil s)" "one_per_key ''polygon_id'' (soil s)"
      "map_of d ''polygon_id'' = Some (VStr key)" "map_of d ''updated_at'' = Some (VDatetime u)"
  proof -
    have f: "find_one (soil_filter key now) (soil s)
        = (if matches (soil_filter key now) d then Some d else None)"
      by (rule find_one_unique[OF a(2) a(1) a(3)]) (simp add: matches_soil_filter)
    have "get_soil_data parse_float api now now' key s = (Inr d, s)" if "ms (now - hours 6) \<le> u"
    proof -
      from that a f have "find_one (soil_filter key now) (soil s) = Some d"
        by (simp add: matches_soil_filter)
      then show ?thesis by (rule get_soil_data_hit)
    qed
    moreover have "outbound (snd (get_soil_data parse_float api now now' key s))
        = outbound s @ [SoilRequest key]"
      if "u < ms (now - hours 6)"
    proof -
      from that a f have "find_one (soil_filter key now) (soil s) = None"
        by (simp add: matches_soil_filter)
      then show ?thesis by (rule get_soil_data_miss_outbound)
    qed
    ultimately show ?thesis by blast
  qed
  from w p within_window[of now u "hours 1"] past_window[of "hours 1" now u]
    within_window[of now u "hours 6"] past_window[of "hours 6" now u]
  show ?thesis by blast
qed

text \<open>
  The claim that a record whose age equals the window is stale and triggers a re-fetch
  fails: at an age of exactly one hour (six hours for soil) the cached record is returned
  and no request is sent.
\<close>

theorem fresh_iff_within_window_counterexample:
  "map_of pune_cached ''updated_at'' = Some (VDatetime 0)
   \<and> hours 1 - 0 = hours 1
   \<and> get_weather weather_api (hours 1) (hours 1) ''Pune'' cached_state = (Inr pune_cached, cached_state)
   \<and> map_of plot_cached ''updated_at'' = Some (VDatetime 0)
   \<and> hours 6 - 0 = hours 6
   \<and> get_soil_data no_parse soil_api (hours 6) (hours 6) ''poly123'' cached_state
       = (Inr plot_cached, cached_state)
   \<and> outbound cached_state = []"
  by (simp add: handler_defs example_defs)

text \<open>
  At the edge of the window, and 999 microseconds past it, the record is served; one
  millisecond past it the provider is called.
\<close>

theorem fresh_iff_within_window_witness:
  "get_weather weather_api (hours 1) (hours 1) ''Pune'' cached_state = (Inr pune_cached, cached_state)
   \<and> get_weather weather_api (hours 1 + 999) (hours 1 + 999) ''Pune'' cached_state
       = (Inr pune_cached, cached_state)
   \<and> outbound (snd (get_weather weather_api (hours 1 + 1000) (hours 1 + 1000) ''Pune'' cached_state))
       = [WeatherRequest ''Pune'']
   \<and> get_soil_data no_parse soil_api (hours 6) (hours 6) ''poly123'' cached_state
       = (Inr plot_cached, cached_state)
   \<and> get_soil_data no_parse soil_api (hours 6 + 999) (hours 6 + 999) ''poly123'' cached_state
       = (Inr plot_cached, cached_state)
   \<and> outbound (snd (get_soil_data no_parse soil_api (hours 6 + 1000) (hours 6 + 1000) ''poly123''
                       cached_state))
       = [SoilRequest ''poly123'']"
proof -
  have w: "pune_cached \<in> set (weather cached_state)" "map_of pune_cached ''city'' = Some (VStr ''Pune'')"
    "map_of pune_cached ''updated_at'' = Some (VDatetime 0)"
    and p: "plot_cached \<in> set (soil cached_state)" "map_of plot_cached ''polygon_id'' = Some (VStr ''poly123'')"
    "map_of plot_cached ''updated_at'' = Some (VDatetime 0)"
    and o: "outbound cached_state = []"
    by (simp_all add: example_defs)
  have t: "hours 1 - 0 \<le> hours 1" "ms (hours 1 + 999 - hours 1) \<le> 0" "hours 1 + 1000 \<le> hours 1 + 1000 - 0"
    "hours 6 - 0 \<le> hours 6" "ms (hours 6 + 999 - hours 6) \<le> 0" "hours 6 + 1000 \<le> hours 6 + 1000 - 0"
    by (simp_all add: ms_def)
  from fresh_iff_within_window[where d=pune_cached and s=cached_state and key="''Pune''" and u=0
         and now="hours 1" and api=weather_api and now'="hours 1"]
       fresh_iff_within_window[where d=pune_cached and s=cached_state and key="''Pune''" and u=0
         and now="hours 1 + 999" and api=weather_api and now'="hours 1 + 999"]
       fresh_iff_within_window[where d=pune_cached and s=cached_state and key="''Pune''" and u=0
         and now="hours 1 + 1000" and api=weather_api and now'="hours 1 + 1000"]
       fresh_iff_within_window[where d=plot_cached and s=cached_state and key="''poly123''" and u=0
         and now="hours 6" and api=soil_api and now'="hours 6" and parse_float=no_parse]
       fresh_iff_within_window[where d=plot_cached and s=cached_state and key="''poly123''" and u=0
         and now="hours 6 + 999" and api=soil_api and now'="hours 6 + 999" and parse_float=no_parse]
       fresh_iff_within_window[where d=plot_cached and s=cached_state and key="''poly123''" and u=0
         and now="hours 6 + 1000" and api=soil_api and now'="hours 6 + 1000" and parse_float=no_parse]
       w p o t one_per_key_cached
  show ?thesis by simp
qed

text \<open>
  C5. With an empty store and a failing provider the body of each handler raises
  \<^verbatim>\<open>HTTPException(404)\<close>, but the \<^verbatim>\<open>raise\<close> stands inside the \<^verbatim>\<open>try\<close> whose
  \<^verbatim>\<open>except Exception\<close> clause catches it: what the handler reports is
  \<^verbatim>\<open>HTTPException(500)\<close>, not the 404 of the claim.
\<close>

theorem not_found_reported_as_500:
  "get_weather_try down_api 0 0 ''Atlantis'' empty_state
     = (Inl (Http (HTTPException 404 ''Weather data not found'')),
        empty_state\<lparr>outbound := [WeatherRequest ''Atlantis'']\<rparr>)
   \<and> get_weather down_api 0 0 ''Atlantis'' empty_state
     = (Inl (HTTPException 500 ''Failed to fetch weather data''),
        empty_state\<lparr>outbound := [WeatherRequest ''Atlantis'']\<rparr>)
   \<and> get_soil_data_try no_parse down_api 0 0 ''sample_polygon_001'' empty_state
     = (Inl (Http (HTTPException 404 ''Soil data not found'')),
        empty_state\<lparr>outbound := [SoilRequest ''sample_polygon_001'']\<rparr>)
   \<and> get_soil_data no_parse down_api 0 0 ''sample_polygon_001'' empty_state
     = (Inl (HTTPException 500 ''Failed to fetch soil data''),
        empty_state\<lparr>outbound := [SoilRequest ''sample_polygon_001'']\<rparr>)"
  by (simp add: handler_defs example_defs)

text \<open>
  C6. If each collection holds at most one record per key, it still does after any
  sequence of \<open>get_weather\<close> and \<open>get_soil_data\<close> requests, whatever the providers answer and
  whatever the clock reads: a write under an existing key replaces that record and a write
  under a new key adds one record.
\<close>

theorem one_record_per_key_preserved: "cache_inv s \<Longrightarrow> cache_inv (run calls s)"
  unfolding run_def by (induction calls arbitrary: s) (simp_all add: step_cache_inv)

text \<open>
  Four requests against the example store: a refresh of a cached city, a first fetch of
  a new city, a refresh of a cached polygon and a failed fetch.
\<close>

theorem one_record_per_key_preserved_witness:
  "cache_inv cached_state
   \<and> cache_inv (run [GetWeather weather_api (hours 2) (hours 2) ''Pune'',
                      GetWeather weather_api (hours 2) (hours 2) ''Delhi'',
                      GetSoil no_parse soil_api (hours 7) (hours 7) ''poly123'',
                      GetSoil no_parse down_api (hours 7) (hours 7) ''poly9''] cached_state)"
proof -
  have h: "cache_inv cached_state" using one_per_key_cached by (simp add: cache_inv_def)
  from one_record_per_key_preserved[OF h] h show ?thesis by simp
qed

text \<open>
  C7. Along any sequence of requests during each of which the clock does not run
  backwards, the \<open>updated_at\<close> stored under a key never decreases: if the key has a record
  with timestamp \<open>u\<close> before the sequence, it has one with a timestamp \<open>u' \<ge> u\<close> after it.
  The starting state is arbitrary, so this compares any two points of a longer sequence.
  A record is replaced only when it failed the cache filter, so its timestamp lies more
  than a window before the clock reading that replaces it.
\<close>

theorem updated_at_never_decreases:
  "list_all clock_ok calls \<Longrightarrow>
   (stored_updated_at ''city'' key (weather s) = Some u
      \<longrightarrow> (\<exists>u'. stored_updated_at ''city'' key (weather (run calls s)) = Some u' \<and> u \<le> u'))
   \<and> (stored_updated_at ''polygon_id'' key (soil s) = Some u
      \<longrightarrow> (\<exists>u'. stored_updated_at ''polygon_id'' key (soil (run calls s)) = Some u' \<and> u \<le> u'))"
  using run_weather_updated_at run_soil_updated_at by blast

text \<open>
  Two refreshing requests against the example store: both timestamps exist afterwards and
  have not decreased.
\<close>

theorem updated_at_never_decreases_witness:
  "list_all clock_ok [GetWeather weather_api (hours 2) (hours 2 + 5) ''Pune'',
                      GetSoil no_parse soil_api (hours 7) (hours 7 + 5) ''poly123'']
   \<and> stored_updated_at ''city'' ''Pune'' (weather cached_state) = Some 0
   \<and> (\<exists>u'. stored_updated_at ''city'' ''Pune''
              (weather (run [GetWeather weather_api (hours 2) (hours 2 + 5) ''Pune'',
                             GetSoil no_parse soil_api (hours 7) (hours 7 + 5) ''poly123'']
                         cached_state)) = Some u'
            \<and> 0 \<le> u')
   \<and> stored_updated_at ''polygon_id'' ''poly123'' (soil cached_state) = Some 0
   \<and> (\<exists>u'. stored_updated_at ''polygon_id'' ''poly123''
              (soil (run [GetWeather weather_api (hours 2) (hours 2 + 5) ''Pune'',
                          GetSoil no_parse soil_api (hours 7) (hours 7 + 5) ''poly123'']
                      cached_state)) = Some u'
            \<and> 0 \<le> u')
   \<and> stored_updated_at ''city'' ''Pune''
         (weather (run [GetWeather weather_api (hours 2) (hours 2 + 5) ''Pune'',
                        GetSoil no_parse soil_api (hours 7) (hours 7 + 5) ''poly123'']
                    cached_state))
       = Some (hours 2)"
proof -
  let ?calls = "[GetWeather weather_api (hours 2) (hours 2 + 5) ''Pune'',
                 GetSoil no_parse soil_api (hours 7) (hours 7 + 5) ''poly123'']"
  have h: "list_all clock_ok ?calls" by simp
  have w: "stored_updated_at ''city'' ''Pune'' (weather cached_state) = Some 0"
    and p: "stored_updated_at ''polygon_id'' ''poly123'' (soil cached_state) = Some 0"
    by (simp_all add: stored_updated_at_def find_one_def matches_def example_defs)
  have v: "stored_updated_at ''city'' ''Pune'' (weather (run ?calls cached_state)) = Some (hours 2)"
    by (simp add: handler_defs example_defs store_defs)
  from updated_at_never_decreases[OF h, of "''Pune''" cached_state 0]
       updated_at_never_decreases[OF h, of "''poly123''" cached_state 0] h w p v
  show ?thesis by blast
qed

text \<open>
  C8. When a first call misses the cache and its fetch succeeds and is stored, a second
  call for the same key whose clock reading \<open>now2\<close> is within the window of the first
  call's write is served from the cache: it returns the record just stored (the new
  payload as the store keeps it) and leaves the state of the first call unchanged, so the
  two calls together sent exactly one request. The second call's provider \<open>api2\<close> is never
  consulted.
\<close>

theorem second_get_is_cache_hit:
  "(find_one (weather_filter key now) (weather s) = None \<and> api key = Some body \<and> body \<noteq> []
      \<and> weather_doc key body now' = Inr doc \<and> to_bson doc = Inr stored \<and> now2 - now' \<le> hours 1
    \<longrightarrow> (\<exists>s1 d'. get_weather api now now' key s = (Inr doc, s1)
          \<and> get_weather api2 now2 now2' key s1 = (Inr d', s1)
          \<and> outbound s1 = outbound s @ [WeatherRequest key]
          \<and> (\<forall>k. k \<noteq> ''_id'' \<longrightarrow> map_of d' k = map_option bson_cut (map_of doc k))))
   \<and> (find_one (soil_filter key now) (soil s) = None \<and> api key = Some body \<and> body \<noteq> []
      \<and> soil_doc parse_float key body now' = Inr doc \<and> to_bson doc = Inr stored
      \<and> now2 - now' \<le> hours 6
    \<longrightarrow> (\<exists>s1 d'. get_soil_data parse_float api now now' key s = (Inr doc, s1)
          \<and> get_soil_data parse_float2 api2 now2 now2' key s1 = (Inr d', s1)
          \<and> outbound s1 = outbound s @ [SoilRequest key]
          \<and> (\<forall>k. k \<noteq> ''_id'' \<longrightarrow> map_of d' k = map_option bson_cut (map_of doc k))))"
proof (intro conjI impI; elim conjE)
  assume a: "find_one (weather_filter key now) (weather s) = None" "api key = Some body"
    "body \<noteq> []" "weather_doc key body now' = Inr doc" "to_bson doc = Inr stored"
    and t: "now2 - now' \<le> hours 1"
  let ?s1 = "snd (get_weather api now now' key s)"
  note g = weather_stored_fields[OF a(4) a(5)]
  note r = get_weather_refresh[where api=api, OF a]
  from g have "map_of stored ''city'' = Some (VStr key)" by simp
  from upsert_stored[OF this, of "weather s" "next_oid s"] r
  obtain d' where d: "find_one [(''city'', Eq (VStr key))] (weather ?s1) = Some d'"
    "\<forall>k. k \<noteq> ''_id'' \<longrightarrow> map_of d' k = map_of stored k" by auto
  from t have "ms (now2 - hours 1) \<le> ms now'" by (intro ms_mono) simp
  with d g have "matches (weather_filter key now2) d'" by (simp add: matches_weather_filter)
  with d(1) have "find_one (weather_filter key now2) (weather ?s1) = Some d'"
    unfolding find_one_def by (rule find_stronger) (rule weather_filter_implies_key)
  then have "get_weather api2 now2 now2' key ?s1 = (Inr d', ?s1)" by (rule get_weather_hit)
  with r d(2) to_bson_fields[OF a(5)]
  show "\<exists>s1 d'. get_weather api now now' key s = (Inr doc, s1)
          \<and> get_weather api2 now2 now2' key s1 = (Inr d', s1)
          \<and> outbound s1 = outbound s @ [WeatherRequest key]
          \<and> (\<forall>k. k \<noteq> ''_id'' \<longrightarrow> map_of d' k = map_option bson_cut (map_of doc k))" by simp
next
  assume a: "find_one (soil_filter key now) (soil s) = None" "api key = Some body"
    "body \<noteq> []" "soil_doc parse_float key body now' = Inr doc" "to_bson doc = Inr stored"
    and t: "now2 - now' \<le> hours 6"
  let ?s1 = "snd (get_soil_data parse_float api now now' key s)"
  note g = soil_stored_fields[OF a(4) a(5)]
  note r = get_soil_data_refresh[where api=api, OF a]
  from g have "map_of stored ''polygon_id'' = Some (VStr key)" by simp
  from upsert_stored[OF this, of "soil s" "next_oid s"] r
  obtain d' where d: "find_one [(''polygon_id'', Eq (VStr key))] (soil ?s1) = Some d'"
    "\<forall>k. k \<noteq> ''_id'' \<longrightarrow> map_of d' k = map_of stored k" by auto
  from t have "ms (now2 - hours 6) \<le> ms now'" by (intro ms_mono) simp
  with d g have "matches (soil_filter key now2) d'" by (simp add: matches_soil_filter)
  with d(1) have "find_one (soil_filter key now2) (soil ?s1) = Some d'"
    unfolding find_one_def by (rule find_stronger) (rule soil_filter_implies_key)
  then have "get_soil_data parse_float2 api2 now2 now2' key ?s1 = (Inr d', ?s1)"
    by (rule get_soil_data_hit)
  with r d(2) to_bson_fields[OF a(5)]
  show "\<exists>s1 d'. get_soil_data parse_float api now now' key s = (Inr doc, s1)
          \<and> get_soil_data parse_float2 api2 now2 now2' key s1 = (Inr d', s1)
          \<and> outbound s1 = outbound s @ [SoilRequest key]
          \<and> (\<forall>k. k \<noteq> ''_id'' \<longrightarrow> map_of d' k = map_option bson_cut (map_of doc k))" by simp
qed

text \<open>
  The scenario of an empty store: the first request for Delhi fetches, a second request
  ten minutes later is answered from the cache although the provider is down by then.
\<close>

theorem second_get_is_cache_hit_witness:
  "(\<exists>s1 d'. get_weather weather_api 0 1 ''Delhi'' empty_state
       = (Inr [(''city'', VStr ''Delhi''), (''current'', VDict [(''temp'', VInt 28)]),
               (''forecast'', VList [VDict [(''temp'', VInt 28)]]), (''updated_at'', VDatetime 1)], s1)
     \<and> get_weather down_api 600000000 600000000 ''Delhi'' s1 = (Inr d', s1)
     \<and> outbound s1 = [WeatherRequest ''Delhi'']
     \<and> map_of d' ''current'' = Some (VDict [(''temp'', VInt 28)]))
   \<and> (\<exists>s1 d'. get_soil_data no_parse soil_api 0 1 ''poly123'' empty_state
       = (Inr [(''polygon_id'', VStr ''poly123''), (''temperature_surface'', VFloat 22),
                (''temperature_10cm'', VFloat 20), (''moisture'', VFloat 0.25),
                (''ph'', VFloat 6.5), (''updated_at'', VDatetime 1)], s1)
     \<and> get_soil_data no_parse down_api 600000000 600000000 ''poly123'' s1 = (Inr d', s1)
     \<and> outbound s1 = [SoilRequest ''poly123'']
     \<and> map_of d' ''moisture'' = Some (VFloat 0.25))"
proof -
  let ?doc = "[(''city'', VStr ''Delhi''), (''current'', VDict [(''temp'', VInt 28)]),
               (''forecast'', VList [VDict [(''temp'', VInt 28)]]), (''updated_at'', VDatetime 1)]"
  let ?st = "[(''city'', VStr ''Delhi''), (''current'', VDict [(''temp'', VInt 28)]),
               (''forecast'', VList [VDict [(''temp'', VInt 28)]]), (''updated_at'', VDatetime 0)]"
  let ?body = "[(''currentConditions'', VDict [(''temp'', VInt 28)]),
           (''days'', VList [VDict [(''temp'', VInt 28)]])]"
  let ?sdoc = "[(''polygon_id'', VStr ''poly123''), (''temperature_surface'', VFloat 22),
                (''temperature_10cm'', VFloat 20), (''moisture'', VFloat 0.25),
                (''ph'', VFloat 6.5), (''updated_at'', VDatetime 1)]"
  let ?sst = "[(''polygon_id'', VStr ''poly123''), (''temperature_surface'', VFloat 22),
                (''temperature_10cm'', VFloat 20), (''moisture'', VFloat 0.25),
                (''ph'', VFloat 6.5), (''updated_at'', VDatetime 0)]"
  let ?sbody = "[(''t0'', VFloat 295.15), (''t10'', VFloat 293.15), (''moisture'', VFloat 0.25)]"
  have h: "find_one (weather_filter ''Delhi'' 0) (weather empty_state) = None"
    "weather_api ''Delhi'' = Some ?body" "?body \<noteq> []"
    "weather_doc ''Delhi'' ?body 1 = Inr ?doc" "to_bson ?doc = Inr ?st" "600000000 - 1 \<le> hours 1"
    by (simp_all add: handler_defs example_defs store_defs)
  have g: "find_one (soil_filter ''poly123'' 0) (soil empty_state) = None"
    "soil_api ''poly123'' = Some ?sbody" "?sbody \<noteq> []"
    "soil_doc no_parse ''poly123'' ?sbody 1 = Inr ?sdoc" "to_bson ?sdoc = Inr ?sst"
    "600000000 - 1 \<le> hours 6"
    by (simp_all add: handler_defs example_defs store_defs)
  from second_get_is_cache_hit[where key="''Delhi''" and now=0 and s=empty_state and api=weather_api
      and body="?body" and now'=1 and doc="?doc" and stored="?st" and ?now2.0=600000000
      and ?api2.0=down_api and now2'=600000000] h
  obtain s1 d' where "get_weather weather_api 0 1 ''Delhi'' empty_state = (Inr ?doc, s1)"
    "get_weather down_api 600000000 600000000 ''Delhi'' s1 = (Inr d', s1)"
    "outbound s1 = outbound empty_state @ [WeatherRequest ''Delhi'']"
    "\<forall>k. k \<noteq> ''_id'' \<longrightarrow> map_of d' k = map_option bson_cut (map_of ?doc k)"
    by blast
  then have 1: "\<exists>s1 d'. get_weather weather_api 0 1 ''Delhi'' empty_state = (Inr ?doc, s1)
     \<and> get_weather down_api 600000000 600000000 ''Delhi'' s1 = (Inr d', s1)
     \<and> outbound s1 = [WeatherRequest ''Delhi'']
     \<and> map_of d' ''current'' = Some (VDict [(''temp'', VInt 28)])"
    by (simp add: empty_state_def)
  from second_get_is_cache_hit[where key="''poly123''" and now=0 and s=empty_state and api=soil_api
      and body="?sbody" and now'=1 and doc="?sdoc" and stored="?sst" and ?now2.0=600000000
      and ?api2.0=down_api and now2'=600000000 and parse_float=no_parse and ?parse_float2.0=no_parse] g
  obtain s1 d' where "get_soil_data no_parse soil_api 0 1 ''poly123'' empty_state = (Inr ?sdoc, s1)"
    "get_soil_data no_parse down_api 600000000 600000000 ''poly123'' s1 = (Inr d', s1)"
    "outbound s1 = outbound empty_state @ [SoilRequest ''poly123'']"
    "\<forall>k. k \<noteq> ''_id'' \<longrightarrow> map_of d' k = map_option bson_cut (map_of ?sdoc k)"
    by blast
  then have 2: "\<exists>s1 d'. get_soil_data no_parse soil_api 0 1 ''poly123'' empty_state = (Inr ?sdoc, s1)
     \<and> get_soil_data no_parse down_api 600000000 600000000 ''poly123'' s1 = (Inr d', s1)
     \<and> outbound s1 = [SoilRequest ''poly123'']
     \<and> map_of d' ''moisture'' = Some (VFloat 0.25)"
    by (simp add: empty_state_def)
  from 1 2 show ?thesis by blast
qed

section \<open>The recommendation defaults\<close>

text \<open>
  C9, as the code has it. The temperature falls back to 25 when the weather data is empty,
  has no \<^verbatim>\<open>"days"\<close> entry, or has a first day that is an object without a \<^verbatim>\<open>"temp"\<close> key; the
  moisture falls back to 0.2 when the soil data is empty or has no \<^verbatim>\<open>"moisture"\<close> key. On
  such inputs, in particular on empty ones, \<open>generate_crop_recommendations\<close> returns what it
  returns when the provider reports temperature 25 and moisture 0.2.
\<close>

theorem defaults_on_missing_data:
  "((weather_data = [] \<or> map_of weather_data ''days'' = None
       \<or> (\<exists>day rest. map_of weather_data ''days'' = Some (VList (VDict day # rest))
             \<and> map_of day ''temp'' = None))
      \<longrightarrow> current_temp weather_data = Inr (VInt 25))
   \<and> ((soil_data = [] \<or> map_of soil_data ''moisture'' = None)
      \<longrightarrow> soil_moisture soil_data = VFloat 0.2)
   \<and> ((weather_data = [] \<or> map_of weather_data ''days'' = None
       \<or> (\<exists>day rest. map_of weather_data ''days'' = Some (VList (VDict day # rest))
             \<and> map_of day ''temp'' = None))
      \<and> (soil_data = [] \<or> map_of soil_data ''moisture'' = None)
      \<longrightarrow> generate_crop_recommendations repr weather_data soil_data location
          = generate_crop_recommendations repr [(''days'', VList [VDict [(''temp'', VInt 25)]])]
              [(''moisture'', VFloat 0.2)] location)"
proof -
  have t: "current_temp weather_data = Inr (VInt 25)"
    if "weather_data = [] \<or> map_of weather_data ''days'' = None
       \<or> (\<exists>day rest. map_of weather_data ''days'' = Some (VList (VDict day # rest))
             \<and> map_of day ''temp'' = None)"
    using that by (auto simp: current_temp_def dict_get_def)
  have m: "soil_moisture soil_data = VFloat 0.2"
    if "soil_data = [] \<or> map_of soil_data ''moisture'' = None"
    using that by (auto simp: soil_moisture_def dict_get_def)
  have t0: "current_temp [(''days'', VList [VDict [(''temp'', VInt 25)]])] = Inr (VInt 25)"
    by (simp add: current_temp_def dict_get_def)
  have m0: "soil_moisture [(''moisture'', VFloat 0.2)] = VFloat 0.2"
    by (simp add: soil_moisture_def dict_get_def)
  show ?thesis
    using t m t0 m0 by (auto intro!: generate_depends_on_locals)
qed

text \<open>
  The claim as stated fails for weather data that lacks a temperature reading in another
  way: an empty list of days raises \<^verbatim>\<open>IndexError\<close>, and a first day whose \<^verbatim>\<open>"temp"\<close> is
  \<^verbatim>\<open>null\<close> yields \<^verbatim>\<open>None\<close>, on which the first comparison raises \<^verbatim>\<open>TypeError\<close>. A \<^verbatim>\<open>null\<close>
  moisture does the same. No default is substituted in these cases.
\<close>

theorem defaults_on_missing_data_counterexample:
  "current_temp [(''days'', VList [])] = Inl IndexError
   \<and> current_temp [(''days'', VList [VDict [(''temp'', VNone)]])] = Inr VNone
   \<and> generate_crop_recommendations (\<lambda>v. '''') [(''days'', VList [VDict [(''temp'', VNone)]])] [] ''Pune''
       = Inl TypeError
   \<and> soil_moisture [(''moisture'', VNone)] = VNone
   \<and> generate_crop_recommendations (\<lambda>v. '''') [] [(''moisture'', VNone)] ''Pune'' = Inl TypeError"
  by (simp add: generate_crop_recommendations_def current_temp_def soil_moisture_def dict_get_def
      crops_db_def score_crop_def py_between_def py_gt_def)

text \<open>
  Empty inputs, and a first day that reports humidity only, take the defaults.
\<close>

theorem defaults_on_missing_data_witness:
  "current_temp [] = Inr (VInt 25)
   \<and> current_temp [(''days'', VList [VDict [(''humidity'', VInt 60)]])] = Inr (VInt 25)
   \<and> soil_moisture [] = VFloat 0.2
   \<and> generate_crop_recommendations (\<lambda>v. '''') [] [] ''Pune''
       = generate_crop_recommendations (\<lambda>v. '''') [(''days'', VList [VDict [(''temp'', VInt 25)]])]
           [(''moisture'', VFloat 0.2)] ''Pune''"
proof -
  have h: "\<exists>day rest. map_of [(''days'', VList [VDict [(''humidity'', VInt 60)]])] ''days''
            = Some (VList (VDict day # rest)) \<and> map_of day ''temp'' = None"
    by simp
  from defaults_on_missing_data[of "[]" "[]" "\<lambda>v. ''''" "''Pune''"]
       defaults_on_missing_data[of "[(''days'', VList [VDict [(''humidity'', VInt 60)]])]" "[]" "\<lambda>v. ''''" "''Pune''"] h
  show ?thesis by simp
qed

text \<open>
  C10, as the code has it. Whenever the temperature and the moisture read from the inputs
  are numbers, \<open>generate_crop_recommendations\<close> returns exactly five recommendations, one per
  crop of \<open>crops_db\<close> (no crop is dropped by the confidence filter, since the confidence
  starts at 0.7), ordered by non-increasing \<open>confidence_score\<close>, each score in the interval
  \<open>(0.6, 1]\<close>.
\<close>

theorem five_recommendations_sorted:
  "current_temp weather_data = Inr temp \<and> as_number temp = Some t
     \<and> as_number (soil_moisture soil_data) = Some m
   \<longrightarrow> (\<exists>recs. generate_crop_recommendations repr weather_data soil_data location = Inr recs
         \<and> length recs = 5
         \<and> mset (map crop_name recs) = mset (map name crops_db)
         \<and> sorted_wrt (\<lambda>a b. confidence_score b \<le> confidence_score a) recs
         \<and> (\<forall>r\<in>set recs. 0.6 < confidence_score r \<and> confidence_score r \<le> 1))"
proof (intro impI; elim conjE)
  assume a: "current_temp weather_data = Inr temp" "as_number temp = Some t"
    "as_number (soil_moisture soil_data) = Some m"
  from recommend_loop_numeric[OF a(2) a(3), of repr crops_db "[]"] obtain rs where
    rs: "recommend_loop repr temp (soil_moisture soil_data) crops_db [] = Inr rs"
        "map crop_name rs = map name crops_db"
        "\<forall>r\<in>set rs. 0.6 < confidence_score r \<and> confidence_score r \<le> 1" by auto
  let ?out = "sort_key (\<lambda>r. - confidence_score r) rs"
  from rs(2) have "length rs = length crops_db" by (metis length_map)
  then have len: "length rs = 5" by (simp add: crops_db_def)
  have g: "generate_crop_recommendations repr weather_data soil_data location = Inr ?out"
    using a(1) rs(1) len by (simp add: generate_crop_recommendations_def)
  have m: "mset (map crop_name ?out) = mset (map name crops_db)"
    using rs(2) by (metis mset_map mset_sort)
  from g len m sorted_by_confidence[of rs] rs(3) show
    "\<exists>recs. generate_crop_recommendations repr weather_data soil_data location = Inr recs
         \<and> length recs = 5
         \<and> mset (map crop_name recs) = mset (map name crops_db)
         \<and> sorted_wrt (\<lambda>a b. confidence_score b \<le> confidence_score a) recs
         \<and> (\<forall>r\<in>set recs. 0.6 < confidence_score r \<and> confidence_score r \<le> 1)"
    by (intro exI[of _ ?out]) simp
qed

text \<open>
  The claim does not hold for every input: with an empty list of days, or with a moisture
  that is not a number, the function raises and returns no recommendation.
\<close>

theorem five_recommendations_sorted_counterexample:
  "generate_crop_recommendations (\<lambda>v. '''') [(''days'', VList [])] [(''moisture'', VFloat 0.25)] ''Pune''
     = Inl IndexError
   \<and> generate_crop_recommendations (\<lambda>v. '''') [(''days'', VList [VDict [(''temp'', VInt 28)]])]
       [(''moisture'', VNone)] ''Pune'' = Inl TypeError"
  by (simp add: generate_crop_recommendations_def current_temp_def soil_moisture_def dict_get_def
      crops_db_def score_crop_def py_between_def py_gt_def)

text \<open>
  A day at 28 degrees over soil of moisture 0.25 yields the five crops.
\<close>

theorem five_recommendations_sorted_witness:
  "\<exists>recs. generate_crop_recommendations (\<lambda>v. '''') [(''days'', VList [VDict [(''temp'', VInt 28)]])]
       [(''moisture'', VFloat 0.25)] ''Pune'' = Inr recs
     \<and> length recs = 5
     \<and> mset (map crop_name recs) = mset (map name crops_db)
     \<and> sorted_wrt (\<lambda>a b. confidence_score b \<le> confidence_score a) recs
     \<and> (\<forall>r\<in>set recs. 0.6 < confidence_score r \<and> confidence_score r \<le> 1)"
proof -
  have h: "current_temp [(''days'', VList [VDict [(''temp'', VInt 28)]])] = Inr (VInt 28)"
    "as_number (VInt 28) = Some 28" "as_number (soil_moisture [(''moisture'', VFloat 0.25)]) = Some 0.25"
    by (simp_all add: current_temp_def soil_moisture_def dict_get_def)
  from five_recommendations_sorted[of "[(''days'', VList [VDict [(''temp'', VInt 28)]])]" "VInt 28" 28
      "[(''moisture'', VFloat 0.25)]" "0.25" "\<lambda>v. ''''" "''Pune''"] h
  show ?thesis by blast
qed

end
